theory Spec2Isabelle
  imports Main
begin

section \<open>JavaScript values, objects and the store\<close>

text \<open>
  The module is a thin layer over the node-mongodb-native driver. Its functions
  read and write properties of objects that the caller keeps a reference to, create
  a few objects of their own, call into the driver and invoke callbacks. The model
  therefore has an explicit store of objects, addressed by references, and a trace
  of the calls that leave the module.

  A string is a list of characters standing for the code units of the JavaScript
  string; a number is an integer (the module does no arithmetic, it only tests a
  number for truthiness). An object has a kind and its own data properties:
  prototypes, getters and frozen objects are left out, since the module is
  documented for plain records, queries and options. A call into the driver is
  recorded and returns; what the driver does with it, and when it answers through
  the function it was passed, is not part of the module.
\<close>

datatype jsval =
    Undefined
  | Null
  | Bool bool
  | Num int
  | Str string
  | Ref nat

text \<open>
  A function object is either one the module did not write (the caller's callback)
  or one of the three function expressions of the module, together with the
  variables it closes over.
\<close>

datatype closure =
    UserFunction
  | ConnectOpened jsval
  | CollectionResolved jsval jsval jsval
  | EnsureIndexDone

datatype objkind =
    PlainObject
  | ArrayObject "jsval list"
  | FunctionObject closure
  | ObjectIDObject string
  | DriverObject string
  | DBInstance
  | CollectionInstance

record obj =
  kind :: objkind
  props :: "string \<Rightarrow> jsval option"

text \<open>
  What leaves the module: \<open>new mongo.C(args)\<close> yielding an object, a method call
  \<open>receiver.method(args)\<close> on an object of the driver, and the invocation of a
  function value the module was given. The arguments of a method call are
  references, so what the driver receives is what the objects hold at the moment of
  the call: the state keeps, for every request, the store as it was then.
\<close>

datatype event =
    Construct string "jsval list" jsval
  | Request jsval string "jsval list"
  | Invoke jsval "jsval list"

datatype jserror = TypeError | Unmodelled

record state =
  cells :: "nat \<Rightarrow> obj"
  fresh :: nat
  trace :: "event list"
  seen :: "(nat \<Rightarrow> obj) list"

text \<open>
  A computation runs on a state and ends either normally with a value or with a
  thrown exception; the state reached is kept in both cases.
\<close>

type_synonym 'a js = "state \<Rightarrow> (jserror + 'a) \<times> state"

definition js_return :: "'a \<Rightarrow> 'a js" where
  "js_return x = (\<lambda>s. (Inr x, s))"

definition js_throw :: "jserror \<Rightarrow> 'a js" where
  "js_throw e = (\<lambda>s. (Inl e, s))"

definition js_bind :: "'a js \<Rightarrow> ('a \<Rightarrow> 'b js) \<Rightarrow> 'b js" where
  "js_bind m f = (\<lambda>s. case m s of (Inl e, s') \<Rightarrow> (Inl e, s') | (Inr x, s') \<Rightarrow> f x s')"

definition emit :: "event \<Rightarrow> unit js" where
  "emit e = (\<lambda>s. (Inr (), s\<lparr>trace := trace s @ [e]\<rparr>))"

definition alloc :: "obj \<Rightarrow> jsval js" where
  "alloc ob = (\<lambda>s. (Inr (Ref (fresh s)),
                     s\<lparr>cells := (cells s)(fresh s := ob), fresh := Suc (fresh s)\<rparr>))"

text \<open>The object literal \<open>{}\<close>.\<close>

definition new_object :: "jsval js" where
  "new_object = alloc \<lparr>kind = PlainObject, props = Map.empty\<rparr>"

text \<open>A function expression: a new function object holding its captured variables.\<close>

definition new_closure :: "closure \<Rightarrow> jsval js" where
  "new_closure c = alloc \<lparr>kind = FunctionObject c, props = Map.empty\<rparr>"

text \<open>
  \<open>args[i]\<close> of a call: a parameter beyond the arguments passed is \<open>undefined\<close>.
\<close>

definition param :: "jsval list \<Rightarrow> nat \<Rightarrow> jsval" where
  "param args i = (if i < length args then args ! i else Undefined)"

text \<open>
  Reading \<open>v.p\<close>. On \<open>undefined\<close> and \<open>null\<close> it throws. An object yields its own
  property or \<open>undefined\<close>; an array and a string have a \<open>length\<close>. The other
  primitives have none of the properties the module reads.
\<close>

definition getprop :: "jsval \<Rightarrow> string \<Rightarrow> jsval js" where
  "getprop v p = (\<lambda>s.
     case v of
       Undefined \<Rightarrow> (Inl TypeError, s)
     | Null \<Rightarrow> (Inl TypeError, s)
     | Ref a \<Rightarrow>
         (case kind (cells s a) of
            ArrayObject xs \<Rightarrow>
              if p = ''length'' then (Inr (Num (int (length xs))), s)
              else (Inr (case props (cells s a) p of None \<Rightarrow> Undefined | Some x \<Rightarrow> x), s)
          | _ \<Rightarrow> (Inr (case props (cells s a) p of None \<Rightarrow> Undefined | Some x \<Rightarrow> x), s))
     | Str t \<Rightarrow> (Inr (if p = ''length'' then Num (int (length t)) else Undefined), s)
     | _ \<Rightarrow> (Inr Undefined, s))"

text \<open>
  Writing \<open>v.p = x\<close>. The file is in strict mode, so the assignment throws on every
  primitive, not only on \<open>undefined\<close> and \<open>null\<close>.
\<close>

definition setprop :: "jsval \<Rightarrow> string \<Rightarrow> jsval \<Rightarrow> unit js" where
  "setprop v p x = (\<lambda>s.
     case v of
       Ref a \<Rightarrow>
         (Inr (), s\<lparr>cells := (cells s)(a := (cells s a)\<lparr>props := (props (cells s a))(p \<mapsto> x)\<rparr>)\<rparr>)
     | _ \<Rightarrow> (Inl TypeError, s))"

fun truthy :: "jsval \<Rightarrow> bool" where
  "truthy Undefined = False"
| "truthy Null = False"
| "truthy (Bool b) = b"
| "truthy (Num n) = (n \<noteq> 0)"
| "truthy (Str t) = (t \<noteq> [])"
| "truthy (Ref a) = True"

definition is_function :: "state \<Rightarrow> jsval \<Rightarrow> bool" where
  "is_function s v =
     (case v of
        Ref a \<Rightarrow> (case kind (cells s a) of FunctionObject c \<Rightarrow> True | _ \<Rightarrow> False)
      | _ \<Rightarrow> False)"

definition typeof :: "state \<Rightarrow> jsval \<Rightarrow> string" where
  "typeof s v =
     (case v of
        Undefined \<Rightarrow> ''undefined''
      | Null \<Rightarrow> ''object''
      | Bool b \<Rightarrow> ''boolean''
      | Num n \<Rightarrow> ''number''
      | Str t \<Rightarrow> ''string''
      | Ref a \<Rightarrow> (if is_function s v then ''function'' else ''object''))"

text \<open>
  Calling a function value the module was handed: anything but a function throws.
  What the function does is the caller's business; the model records the call.
\<close>

definition invoke :: "jsval \<Rightarrow> jsval list \<Rightarrow> unit js" where
  "invoke f args = (\<lambda>s. if is_function s f then emit (Invoke f args) s else (Inl TypeError, s))"

text \<open>The store as it is now, appended to what the driver has seen.\<close>

definition snapshot :: "unit js" where
  "snapshot = (\<lambda>s. (Inr (), s\<lparr>seen := seen s @ [cells s]\<rparr>))"

text \<open>
  A method call on an object of the driver whose result the module does not use,
  and \<open>new mongo.C(args)\<close>. A request is recorded together with the store at that
  moment. The driver answers a request later, through the function it was passed.
\<close>

definition request :: "jsval \<Rightarrow> string \<Rightarrow> jsval list \<Rightarrow> unit js" where
  "request recv meth args =
     (case recv of
        Ref a \<Rightarrow> js_bind snapshot (\<lambda>_. emit (Request recv meth args))
      | _ \<Rightarrow> js_throw TypeError)"

definition construct :: "string \<Rightarrow> jsval list \<Rightarrow> jsval js" where
  "construct cls args =
     js_bind (alloc \<lparr>kind = DriverObject cls, props = Map.empty\<rparr>) (\<lambda>ob.
     js_bind (emit (Construct cls args ob)) (\<lambda>_.
     js_return ob))"

text \<open>
  \<open>coll.find(...)\<close> of the driver returns a cursor, the one result of a driver call
  that the module goes on to use.
\<close>

definition request_cursor :: "jsval \<Rightarrow> jsval list \<Rightarrow> jsval js" where
  "request_cursor recv args =
     js_bind (request recv ''find'' args) (\<lambda>_.
     alloc \<lparr>kind = DriverObject ''Cursor'', props = Map.empty\<rparr>)"

section \<open>Identifier coercion\<close>

text \<open>
  The regular expression \<open>/^[0-9A-F]{24}$/i\<close>. With the flag \<open>i\<close> the class
  takes the digits and the letters a to f in both cases, and no character outside
  ASCII; the repetition takes exactly 24 characters from the start of the string;
  without the flag \<open>m\<close> the dollar sign matches at the end of the string only.
\<close>

definition in_range :: "char \<Rightarrow> char \<Rightarrow> char \<Rightarrow> bool" where
  "in_range lo hi c = ((of_char lo :: nat) \<le> of_char c \<and> (of_char c :: nat) \<le> of_char hi)"

definition hex_class :: "char \<Rightarrow> bool" where
  "hex_class c =
     (in_range CHR ''0'' CHR ''9'' c \<or> in_range CHR ''A'' CHR ''F'' c
      \<or> in_range CHR ''a'' CHR ''f'' c)"

fun match_hex :: "nat \<Rightarrow> string \<Rightarrow> bool" where
  "match_hex 0 t = (t = [])"
| "match_hex (Suc n) [] = False"
| "match_hex (Suc n) (c # t) = (hex_class c \<and> match_hex n t)"

definition test_hex24 :: "string \<Rightarrow> bool" where
  "test_hex24 t = match_hex 24 t"

text \<open>
  \<open>mongo.ObjectID.createFromHexString\<close> belongs to the driver: it yields a new
  ObjectID object, which the model tags with the string it was made from.
\<close>

definition createFromHexString :: "string \<Rightarrow> jsval js" where
  "createFromHexString t = alloc \<lparr>kind = ObjectIDObject t, props = Map.empty\<rparr>"

text \<open>
  \<open>fixID\<close> reads \<open>query._id\<close>; the regular expression is tested only when
  \<open>typeof\<close> gives \<open>'string'\<close>, so only a string reaches it.
\<close>

definition fixID :: "jsval \<Rightarrow> unit js" where
  "fixID query =
     js_bind (getprop query ''_id'') (\<lambda>id. \<lambda>s.
       (case id of
          Str t \<Rightarrow>
            if typeof s id = ''string'' \<and> test_hex24 t
            then js_bind (createFromHexString t) (\<lambda>oid. setprop query ''_id'' oid) s
            else (Inr (), s)
        | _ \<Rightarrow> (Inr (), s)))"

section \<open>The connection manager\<close>

text \<open>
  \<open>a || b\<close> for the two defaults of \<open>connect\<close>.
\<close>

definition or_else :: "jsval \<Rightarrow> jsval \<Rightarrow> jsval" where
  "or_else a b = (if truthy a then a else b)"

text \<open>\<open>new DB(dbConnection)\<close>.\<close>

definition DB :: "jsval \<Rightarrow> jsval js" where
  "DB dbConnection = alloc \<lparr>kind = DBInstance, props = [''_db'' \<mapsto> dbConnection]\<rparr>"

text \<open>
  \<open>new Collection(name, coll)\<close>. The getter \<open>name\<close> returns the constructor's
  argument; the model keeps it as a property.
\<close>

definition Collection :: "jsval \<Rightarrow> jsval \<Rightarrow> jsval js" where
  "Collection name coll =
     alloc \<lparr>kind = CollectionInstance, props = [''_coll'' \<mapsto> coll, ''name'' \<mapsto> name]\<rparr>"

text \<open>
  The function passed to \<open>dbConnector.open\<close>; \<open>callback\<close> is the variable of
  \<open>connect\<close> it closes over.
\<close>

definition connect_opened :: "jsval \<Rightarrow> jsval list \<Rightarrow> unit js" where
  "connect_opened callback args =
     (let err = param args 0; conn = param args 1 in
      if truthy err then invoke callback [err]
      else js_bind (DB conn) (\<lambda>db. invoke callback [Null, db]))"

text \<open>
  \<open>connect\<close>. With one argument the source evaluates the comparison
  \<open>callback == options\<close> and drops its value, so \<open>callback\<close> keeps the value of
  the missing second parameter.
\<close>

definition connect :: "jsval list \<Rightarrow> unit js" where
  "connect args =
     (let options = param args 0; callback = param args 1 in
      js_bind (if length args = 1 then new_object else js_return options) (\<lambda>options.
      js_bind (getprop options ''host'') (\<lambda>h.
      js_bind (getprop options ''port'') (\<lambda>p.
      let host = or_else h (Str ''localhost''); port = or_else p (Num 27017) in
      js_bind (setprop options ''strict'' (Bool False)) (\<lambda>_.
      js_bind (setprop options ''safe'' (Bool True)) (\<lambda>_.
      js_bind (construct ''Server'' [host, port, options]) (\<lambda>mongoServer.
      js_bind (getprop options ''name'') (\<lambda>name.
      js_bind (construct ''Db'' [name, mongoServer, options]) (\<lambda>dbConnector.
      js_bind (new_closure (ConnectOpened callback)) (\<lambda>k.
      request dbConnector ''open'' [k]))))))))))"

section \<open>The database handle\<close>

text \<open>
  \<open>indexes === null || indexes.length == 0\<close>. A value that is neither \<open>null\<close>, a
  primitive nor an array is outside the model.
\<close>

definition no_indexes :: "jsval \<Rightarrow> bool js" where
  "no_indexes indexes = (\<lambda>s.
     case indexes of
       Null \<Rightarrow> (Inr True, s)
     | Undefined \<Rightarrow> (Inl TypeError, s)
     | Str t \<Rightarrow> (Inr (t = []), s)
     | Ref a \<Rightarrow>
         (case kind (cells s a) of
            ArrayObject xs \<Rightarrow> (Inr (xs = []), s)
          | _ \<Rightarrow> (Inl Unmodelled, s))
     | _ \<Rightarrow> (Inr False, s))"

text \<open>\<open>Array.prototype.forEach\<close> over the elements of an array.\<close>

fun for_each :: "jsval list \<Rightarrow> (jsval \<Rightarrow> unit js) \<Rightarrow> unit js" where
  "for_each [] f = js_return ()"
| "for_each (x # xs) f = js_bind (f x) (\<lambda>_. for_each xs f)"

text \<open>
  \<open>indexes.forEach(f)\<close>: only an array has the method among the values modelled.
\<close>

definition forEach :: "jsval \<Rightarrow> (jsval \<Rightarrow> unit js) \<Rightarrow> unit js" where
  "forEach v f = (\<lambda>s.
     case v of
       Ref a \<Rightarrow>
         (case kind (cells s a) of
            ArrayObject xs \<Rightarrow> for_each xs f s
          | _ \<Rightarrow> (Inl Unmodelled, s))
     | _ \<Rightarrow> (Inl TypeError, s))"

text \<open>The function \<open>function() {}\<close> passed to \<open>ensureIndex\<close>: it ignores its arguments.\<close>

definition ensureIndex_done :: "jsval list \<Rightarrow> unit js" where
  "ensureIndex_done args = js_return ()"

text \<open>
  The function passed to \<open>this._db.collection\<close>, with the variables \<open>name\<close>,
  \<open>indexes\<close> and \<open>callback\<close> of \<open>getCollection\<close> it closes over.
\<close>

definition getCollection_resolved :: "jsval \<Rightarrow> jsval \<Rightarrow> jsval \<Rightarrow> jsval list \<Rightarrow> unit js" where
  "getCollection_resolved name indexes callback args =
     (let err = param args 0; coll = param args 1 in
      if truthy err then invoke callback [err]
      else
        js_bind (no_indexes indexes) (\<lambda>none.
        if none then js_bind (Collection name coll) (\<lambda>c. invoke callback [Null, c])
        else
          js_bind (forEach indexes (\<lambda>index.
                     js_bind (new_closure EnsureIndexDone) (\<lambda>k.
                     request coll ''ensureIndex'' [index, k]))) (\<lambda>_.
          js_bind (Collection name coll) (\<lambda>c.
          invoke callback [Null, c]))))"

definition DB_getCollection :: "jsval \<Rightarrow> jsval list \<Rightarrow> unit js" where
  "DB_getCollection this args =
     (let name = param args 0;
          indexes = (if length args = 2 then Null else param args 1);
          callback = (if length args = 2 then param args 1 else param args 2) in
      js_bind (getprop this ''_db'') (\<lambda>db.
      js_bind (new_closure (CollectionResolved name indexes callback)) (\<lambda>k.
      request db ''collection'' [name, k])))"

definition DB_close :: "jsval \<Rightarrow> jsval list \<Rightarrow> unit js" where
  "DB_close this args =
     js_bind (getprop this ''_db'') (\<lambda>db.
     if length args = 1 then request db ''close'' [param args 0]
     else request db ''close'' [param args 0, param args 1])"

text \<open>
  What a function object of the module does when the driver calls it.
\<close>

definition apply_closure :: "closure \<Rightarrow> jsval list \<Rightarrow> unit js" where
  "apply_closure c args =
     (case c of
        ConnectOpened callback \<Rightarrow> connect_opened callback args
      | CollectionResolved name indexes callback \<Rightarrow> getCollection_resolved name indexes callback args
      | EnsureIndexDone \<Rightarrow> ensureIndex_done args
      | UserFunction \<Rightarrow> js_throw Unmodelled)"

section \<open>The collection handle\<close>

definition Collection_find :: "jsval \<Rightarrow> jsval list \<Rightarrow> unit js" where
  "Collection_find this args =
     (let query = param args 0 in
      js_bind (if length args = 2 then js_bind new_object (\<lambda>opts. js_return (Null, opts, param args 1))
               else if length args = 3 then js_return (Null, param args 1, param args 2)
               else js_return (param args 1, param args 2, param args 3))
        (\<lambda>(fields, options, callback).
      js_bind (fixID query) (\<lambda>_.
      js_bind (getprop this ''_coll'') (\<lambda>coll.
      js_bind (if fields = Null then request_cursor coll [query, options]
               else request_cursor coll [query, fields, options]) (\<lambda>cursor.
      request cursor ''toArray'' [callback])))))"

definition Collection_findOne :: "jsval \<Rightarrow> jsval list \<Rightarrow> unit js" where
  "Collection_findOne this args =
     (let query = param args 0 in
      js_bind (if length args = 2 then js_bind new_object (\<lambda>opts. js_return (Null, opts, param args 1))
               else if length args = 3 then js_return (Null, param args 1, param args 2)
               else js_return (param args 1, param args 2, param args 3))
        (\<lambda>(fields, options, callback).
      js_bind (fixID query) (\<lambda>_.
      js_bind (getprop this ''_coll'') (\<lambda>coll.
      if fields = Null then request coll ''findOne'' [query, options, callback]
      else request coll ''findOne'' [query, fields, options, callback]))))"

definition Collection_save :: "jsval \<Rightarrow> jsval list \<Rightarrow> unit js" where
  "Collection_save this args =
     (let record = param args 0 in
      js_bind (if length args = 2 then js_bind new_object (\<lambda>opts. js_return (opts, param args 1))
               else js_return (param args 1, param args 2))
        (\<lambda>(options, callback).
      js_bind (setprop options ''safe'' (Bool True)) (\<lambda>_.
      js_bind (fixID record) (\<lambda>_.
      js_bind (getprop this ''_coll'') (\<lambda>coll.
      request coll ''save'' [record, options, callback])))))"

definition Collection_update :: "jsval \<Rightarrow> jsval list \<Rightarrow> unit js" where
  "Collection_update this args =
     (let criteria = param args 0; record = param args 1 in
      js_bind (if length args = 3 then js_bind new_object (\<lambda>opts. js_return (opts, param args 2))
               else js_return (param args 2, param args 3))
        (\<lambda>(options, callback).
      js_bind (setprop options ''safe'' (Bool True)) (\<lambda>_.
      js_bind (fixID record) (\<lambda>_.
      js_bind (getprop this ''_coll'') (\<lambda>coll.
      request coll ''update'' [criteria, record, options, callback])))))"

definition Collection_delete :: "jsval \<Rightarrow> jsval list \<Rightarrow> unit js" where
  "Collection_delete this args =
     (let query = param args 0 in
      js_bind (if length args = 2 then js_bind new_object (\<lambda>opts. js_return (opts, param args 1))
               else js_return (param args 1, param args 2))
        (\<lambda>(options, callback).
      js_bind (setprop options ''safe'' (Bool True)) (\<lambda>_.
      js_bind (fixID query) (\<lambda>_.
      js_bind (getprop this ''_coll'') (\<lambda>coll.
      request coll ''remove'' [query, options, callback])))))"

text \<open>
  \<open>count\<close>: both branches for a short argument list assign \<open>callback = options\<close>,
  the second parameter.
\<close>

definition Collection_count :: "jsval \<Rightarrow> jsval list \<Rightarrow> unit js" where
  "Collection_count this args =
     (let query = param args 0 in
      js_bind (if length args = 2 then js_bind new_object (\<lambda>opts. js_return (opts, param args 1))
               else if length args = 1 then js_bind new_object (\<lambda>opts. js_return (opts, param args 1))
               else js_return (param args 1, param args 2))
        (\<lambda>(options, callback).
      js_bind (setprop options ''safe'' (Bool True)) (\<lambda>_.
      js_bind (fixID query) (\<lambda>_.
      js_bind (getprop this ''_coll'') (\<lambda>coll.
      request coll ''count'' [query, options, callback])))))"

text \<open>The six methods of \<open>Collection.prototype\<close>, so that a statement can range over them.\<close>

datatype coll_method = Find | FindOne | Save | Update | Delete | Count

definition Collection_prototype :: "coll_method \<Rightarrow> jsval \<Rightarrow> jsval list \<Rightarrow> unit js" where
  "Collection_prototype m =
     (case m of
        Find \<Rightarrow> Collection_find
      | FindOne \<Rightarrow> Collection_findOne
      | Save \<Rightarrow> Collection_save
      | Update \<Rightarrow> Collection_update
      | Delete \<Rightarrow> Collection_delete
      | Count \<Rightarrow> Collection_count)"

section \<open>Vocabulary of the statements\<close>

text \<open>
  The position of the argument a method hands to \<open>fixID\<close>, the driver method it
  calls, and the position of the options in that call.
\<close>

definition fixed_arg :: "coll_method \<Rightarrow> nat" where
  "fixed_arg m = (case m of Update \<Rightarrow> 1 | _ \<Rightarrow> 0)"

definition store_method :: "coll_method \<Rightarrow> string" where
  "store_method m =
     (case m of
        Find \<Rightarrow> ''find''
      | FindOne \<Rightarrow> ''findOne''
      | Save \<Rightarrow> ''save''
      | Update \<Rightarrow> ''update''
      | Delete \<Rightarrow> ''remove''
      | Count \<Rightarrow> ''count'')"

definition options_arg :: "coll_method \<Rightarrow> nat" where
  "options_arg m = (case m of Update \<Rightarrow> 2 | _ \<Rightarrow> 1)"

text \<open>The events a run from \<open>s\<close> to \<open>s'\<close> added to the trace.\<close>

definition issued :: "state \<Rightarrow> state \<Rightarrow> event list" where
  "issued s s' = drop (length (trace s)) (trace s')"

definition is_ref :: "jsval \<Rightarrow> bool" where
  "is_ref v = (case v of Ref a \<Rightarrow> True | _ \<Rightarrow> False)"

text \<open>
  A reference the caller holds points to an object that exists: its address is
  below the next free one.
\<close>

definition allocated :: "state \<Rightarrow> jsval \<Rightarrow> bool" where
  "allocated s v = (case v of Ref a \<Rightarrow> a < fresh s | _ \<Rightarrow> True)"

text \<open>\<open>this\<close> is a collection handle wrapping the driver's collection \<open>coll\<close>.\<close>

definition collection_handle :: "state \<Rightarrow> jsval \<Rightarrow> jsval \<Rightarrow> bool" where
  "collection_handle s this coll =
     (case this of
        Ref c \<Rightarrow> c < fresh s \<and> props (cells s c) ''_coll'' = Some coll \<and> is_ref coll
      | _ \<Rightarrow> False)"

text \<open>\<open>this\<close> is a database handle wrapping the driver's connection \<open>db\<close>.\<close>

definition db_handle :: "state \<Rightarrow> jsval \<Rightarrow> jsval \<Rightarrow> bool" where
  "db_handle s this db =
     (case this of
        Ref c \<Rightarrow> props (cells s c) ''_db'' = Some db \<and> is_ref db
      | _ \<Rightarrow> False)"

text \<open>
  The options of a writing method are omitted (the argument count is the one
  that the method tests for) or an object the caller holds.
\<close>

definition options_usable :: "state \<Rightarrow> coll_method \<Rightarrow> jsval list \<Rightarrow> bool" where
  "options_usable s m args =
     (case m of
        Find \<Rightarrow> True
      | FindOne \<Rightarrow> True
      | Save \<Rightarrow> length args = 2 \<or> (is_ref (param args 1) \<and> allocated s (param args 1))
      | Update \<Rightarrow> length args = 3 \<or> (is_ref (param args 2) \<and> allocated s (param args 2))
      | Delete \<Rightarrow> length args = 2 \<or> (is_ref (param args 1) \<and> allocated s (param args 1))
      | Count \<Rightarrow> length args = 2 \<or> length args = 1
                 \<or> (is_ref (param args 1) \<and> allocated s (param args 1)))"

text \<open>
  The specification's words for the strings that are coerced: exactly 24
  hexadecimal characters, in either case.
\<close>

definition is_24_hex_string :: "string \<Rightarrow> bool" where
  "is_24_hex_string t =
     (length t = 24 \<and> (\<forall>c \<in> set t. c \<in> set ''0123456789abcdefABCDEF''))"

text \<open>
  The property value \<open>v\<close> is a native ObjectID made from the string \<open>t\<close> during the
  run that started in \<open>s\<close> and ended in \<open>s'\<close>.
\<close>

definition native_id :: "state \<Rightarrow> state \<Rightarrow> jsval option \<Rightarrow> string \<Rightarrow> bool" where
  "native_id s s' v t =
     (case v of
        Some (Ref i) \<Rightarrow> fresh s \<le> i \<and> i < fresh s' \<and> kind (cells s' i) = ObjectIDObject t
      | _ \<Rightarrow> False)"

text \<open>
  How the \<open>_id\<close> of an object reads after a run, given how it read before:
  coerced when it was a string of 24 hexadecimal characters, and as before in
  every other case, the absent property included.
\<close>

definition id_forwarded :: "state \<Rightarrow> state \<Rightarrow> jsval option \<Rightarrow> jsval option \<Rightarrow> bool" where
  "id_forwarded s s' was now =
     (case was of
        Some (Str t) \<Rightarrow> if is_24_hex_string t then native_id s s' now t else now = was
      | _ \<Rightarrow> now = was)"

text \<open>
  The first request of a run goes to the driver's collection, calls the method's
  counterpart and carries the caller's object \<open>a\<close> where the method passes the
  argument it has given to \<open>fixID\<close>.
\<close>

definition forwards :: "coll_method \<Rightarrow> jsval \<Rightarrow> nat \<Rightarrow> event list \<Rightarrow> bool" where
  "forwards m coll a evs =
     (case evs of
        Request r meth xs # rest \<Rightarrow>
          r = coll \<and> meth = store_method m \<and> param xs (fixed_arg m) = Ref a
      | _ \<Rightarrow> False)"

text \<open>
  The stores the driver was shown by the requests of a run from \<open>s\<close> to \<open>s'\<close>, one
  for each request and in their order.
\<close>

definition views :: "state \<Rightarrow> state \<Rightarrow> (nat \<Rightarrow> obj) list" where
  "views s s' = drop (length (seen s)) (seen s')"

text \<open>
  How the \<open>_id\<close> of an object reads in the store \<open>view\<close> shown to the driver, given
  how it read when the run started in \<open>s\<close>: a native ObjectID made from the string
  during the run when it was a string of 24 hexadecimal characters, and as before
  in every other case.
\<close>

definition id_seen :: "state \<Rightarrow> (nat \<Rightarrow> obj) \<Rightarrow> jsval option \<Rightarrow> jsval option \<Rightarrow> bool" where
  "id_seen s view was now =
     (case was of
        Some (Str t) \<Rightarrow>
          if is_24_hex_string t
          then (case now of
                  Some (Ref i) \<Rightarrow> fresh s \<le> i \<and> kind (view i) = ObjectIDObject t
                | _ \<Rightarrow> False)
          else now = was
      | _ \<Rightarrow> now = was)"

text \<open>
  The first request of a run showed the driver a store in which the \<open>_id\<close> of the
  object \<open>a\<close> reads as \<open>id_seen\<close> describes.
\<close>

definition sent_id :: "state \<Rightarrow> state \<Rightarrow> nat \<Rightarrow> bool" where
  "sent_id s s' a =
     (case views s s' of
        view # rest \<Rightarrow> id_seen s view (props (cells s a) ''_id'') (props (view a) ''_id'')
      | [] \<Rightarrow> False)"

text \<open>
  The one request of a run showed the driver a store in which the object \<open>b\<close> has
  \<open>safe\<close> set to \<open>true\<close>.
\<close>

definition sent_safe :: "state \<Rightarrow> state \<Rightarrow> nat \<Rightarrow> bool" where
  "sent_safe s s' b =
     (case views s s' of
        [view] \<Rightarrow> props (view b) ''safe'' = Some (Bool True)
      | _ \<Rightarrow> False)"

text \<open>
  What a writing method leaves behind: one request, made when the store was as it
  is at the end; the \<open>_id\<close> of the object \<open>a\<close> it gave to \<open>fixID\<close> as
  \<open>id_forwarded\<close> describes, \<open>safe\<close> set on the options object \<open>b\<close>, and the
  \<open>_id\<close> of every other object the caller holds as it was.
\<close>

definition wrote :: "state \<Rightarrow> state \<Rightarrow> jsval \<Rightarrow> string \<Rightarrow> jsval list \<Rightarrow> nat \<Rightarrow> nat \<Rightarrow> bool" where
  "wrote s s' coll meth xs a b =
     (issued s s' = [Request coll meth xs] \<and>
      views s s' = [cells s'] \<and>
      id_forwarded s s' (props (cells s a) ''_id'') (props (cells s' a) ''_id'') \<and>
      props (cells s' b) ''safe'' = Some (Bool True) \<and>
      (\<forall>e. e < fresh s \<longrightarrow> e \<noteq> a \<longrightarrow> props (cells s' e) ''_id'' = props (cells s e) ''_id''))"

text \<open>
  The \<open>ensureIndex\<close> requests for an index list, in order; the request for the
  \<open>i\<close>-th entry carries the function object at address \<open>n + i\<close>.
\<close>

primrec ensure_requests :: "jsval \<Rightarrow> nat \<Rightarrow> jsval list \<Rightarrow> event list" where
  "ensure_requests coll n [] = []"
| "ensure_requests coll n (x # xs) =
     Request coll ''ensureIndex'' [x, Ref n] # ensure_requests coll (Suc n) xs"

text \<open>\<open>h\<close> is a collection handle made by \<open>new Collection(name, coll)\<close>.\<close>

definition is_handle_for :: "state \<Rightarrow> jsval \<Rightarrow> jsval \<Rightarrow> jsval \<Rightarrow> bool" where
  "is_handle_for s h name coll =
     (case h of
        Ref c \<Rightarrow> kind (cells s c) = CollectionInstance \<and>
                 props (cells s c) ''_coll'' = Some coll \<and> props (cells s c) ''name'' = Some name
      | _ \<Rightarrow> False)"

text \<open>
  A computation started in \<open>s\<close> returns normally, and its value and final state
  satisfy \<open>Q\<close>.
\<close>

definition post :: "'a js \<Rightarrow> state \<Rightarrow> ('a \<Rightarrow> state \<Rightarrow> bool) \<Rightarrow> bool" where
  "post m s Q = (case m s of (Inr x, s') \<Rightarrow> Q x s' | (Inl e, s') \<Rightarrow> False)"

text \<open>The string \<open>fixID\<close> coerces, if the property value is one.\<close>

definition hex_of :: "jsval option \<Rightarrow> string option" where
  "hex_of v = (case v of Some (Str t) \<Rightarrow> if test_hex24 t then Some t else None | _ \<Rightarrow> None)"

section \<open>The document store behind the driver\<close>

text \<open>
  Modelled from the spec: the identity of a stored record. The store and the driver
  that talks to it are not part of the repository; section 4.3 of the specification
  says that \<open>save\<close> is an upsert by identity. Two native identifiers are the same
  when they were made from the same string; any other \<open>_id\<close> value is its own
  key.
\<close>

datatype id_key = OidKey string | ValKey jsval

definition id_key_of :: "state \<Rightarrow> jsval \<Rightarrow> id_key" where
  "id_key_of s v =
     (case v of
        Ref i \<Rightarrow> (case kind (cells s i) of ObjectIDObject t \<Rightarrow> OidKey t | _ \<Rightarrow> ValKey v)
      | _ \<Rightarrow> ValKey v)"

text \<open>
  Modelled from the spec: a stored record, which is not part of the repository: its
  key and its top-level fields as the record object had them when it was saved.
\<close>

record doc =
  doc_key :: id_key
  doc_fields :: "string \<Rightarrow> jsval option"

text \<open>
  Modelled from the spec: \<open>save\<close> of the store, which is not part of the
  repository (section 4.3: ``if a record with the same identifier exists, it is
  fully overwritten; otherwise a new record is created (identifier auto-generated if
  absent). Returns the saved record on insert, or an update count on overwrite'';
  section 8: the callback receives the inserted record including a generated
  \<open>_id\<close>). The function reads the record object as it is when the request is
  made and yields the arguments for the callback and the stored records. \<open>g\<close> is
  the identifier the store generates for a record without \<open>_id\<close>; when it is
  already in use the save fails, and the callback gets an error.
\<close>

definition store_save :: "string \<Rightarrow> doc list \<Rightarrow> jsval \<Rightarrow> (jsval list \<times> doc list) js" where
  "store_save g docs record = (\<lambda>s.
     case record of
       Ref a \<Rightarrow>
         (case props (cells s a) ''_id'' of
            None \<Rightarrow>
              if OidKey g \<in> doc_key ` set docs then (Inr ([Str ''duplicate key''], docs), s)
              else
                js_bind (alloc \<lparr>kind = ObjectIDObject g, props = Map.empty\<rparr>) (\<lambda>oid.
                js_bind (setprop record ''_id'' oid) (\<lambda>_. \<lambda>s'.
                  (Inr ([Null, record],
                        docs @ [\<lparr>doc_key = OidKey g, doc_fields = props (cells s' a)\<rparr>]), s'))) s
          | Some v \<Rightarrow>
              (let k = id_key_of s v; d = \<lparr>doc_key = k, doc_fields = props (cells s a)\<rparr> in
               if k \<in> doc_key ` set docs
               then (Inr ([Null, Num 1], map (\<lambda>e. if doc_key e = k then d else e) docs), s)
               else (Inr ([Null, record], docs @ [d]), s)))
     | _ \<Rightarrow> (Inl Unmodelled, s))"

text \<open>
  Modelled from the spec: \<open>findOne\<close> of the store, which is not part of the
  repository (section 4.3: a filtered read that returns at most one record, or
  \<open>null\<close>). The filter is modelled for a query by identifier: the first stored
  record with the key of the query's \<open>_id\<close> is handed to the callback as a new
  object with the stored fields. A query without \<open>_id\<close> is outside the model.
\<close>

definition store_findOne :: "doc list \<Rightarrow> jsval \<Rightarrow> jsval list js" where
  "store_findOne docs query = (\<lambda>s.
     case query of
       Ref q \<Rightarrow>
         (case props (cells s q) ''_id'' of
            Some v \<Rightarrow>
              (case find (\<lambda>d. doc_key d = id_key_of s v) docs of
                 Some d \<Rightarrow>
                   js_bind (alloc \<lparr>kind = PlainObject, props = doc_fields d\<rparr>) (\<lambda>f.
                   js_return [Null, f]) s
               | None \<Rightarrow> (Inr [Null, Null], s))
          | None \<Rightarrow> (Inl Unmodelled, s))
     | _ \<Rightarrow> (Inl Unmodelled, s))"

text \<open>
  Modelled from the spec: what the driver, which is not part of the repository, was
  asked last. The store serves the latest request of the module: it works on the
  arguments the module passed, and answers through the callback among them. A
  latest event that is not a request for \<open>meth\<close> is outside the model.
\<close>

definition requested :: "string \<Rightarrow> jsval list js" where
  "requested meth = (\<lambda>s.
     case rev (trace s) of
       Request r m args # _ \<Rightarrow> if m = meth then (Inr args, s) else (Inl Unmodelled, s)
     | _ \<Rightarrow> (Inl Unmodelled, s))"

text \<open>
  The round trip of section 8: the caller saves a record; the store answers
  through the callback; the caller reads the \<open>_id\<close> of the record it is handed,
  puts it into a new query \<open>{_id: ...}\<close> and calls \<open>findOne\<close>; the store answers
  through the second callback. \<open>Collection_save\<close> and \<open>Collection_findOne\<close> are
  the module's; the two answers are the modelled store's, which sees the record, the
  query and the callbacks only as the module passed them on (first and third
  argument of the request).
\<close>

definition save_then_findOne ::
  "string \<Rightarrow> doc list \<Rightarrow> jsval \<Rightarrow> jsval \<Rightarrow> jsval \<Rightarrow> jsval \<Rightarrow> jsval list js" where
  "save_then_findOne g docs this record cb cb' =
     js_bind (Collection_save this [record, cb]) (\<lambda>_.
     js_bind (requested ''save'') (\<lambda>sent.
     js_bind (store_save g docs (param sent 0)) (\<lambda>(answer, docs').
     js_bind (invoke (param sent 2) answer) (\<lambda>_.
     js_bind (getprop (param answer 1) ''_id'') (\<lambda>idv.
     js_bind (alloc \<lparr>kind = PlainObject, props = [''_id'' \<mapsto> idv]\<rparr>) (\<lambda>query.
     js_bind (Collection_findOne this [query, cb']) (\<lambda>_.
     js_bind (requested ''findOne'') (\<lambda>sent'.
     js_bind (store_findOne docs' (param sent' 0)) (\<lambda>found.
     js_bind (invoke (param sent' 2) found) (\<lambda>_.
     js_return found))))))))))"

section \<open>A sample store\<close>

text \<open>
  Eleven objects a caller and the driver could hold: a callback, the driver's
  collection and its handle, a record whose \<open>_id\<close> is a hexadecimal string, an
  options object with \<open>safe\<close> switched off, the driver's connection and its handle,
  an index list, an empty index list, a query with a numeric \<open>_id\<close>, and an error
  of the driver.
\<close>

definition empty_obj :: obj where
  "empty_obj = \<lparr>kind = PlainObject, props = Map.empty\<rparr>"

definition sample_cells :: "nat \<Rightarrow> obj" where
  "sample_cells =
     (\<lambda>n. empty_obj)
       (0 := \<lparr>kind = FunctionObject UserFunction, props = Map.empty\<rparr>,
        1 := \<lparr>kind = DriverObject ''Collection'', props = Map.empty\<rparr>,
        2 := \<lparr>kind = CollectionInstance, props = [''_coll'' \<mapsto> Ref 1, ''name'' \<mapsto> Str ''author'']\<rparr>,
        3 := \<lparr>kind = PlainObject,
               props = [''_id'' \<mapsto> Str ''4f2a9C01bd33e7A5c0ffEE12'', ''name'' \<mapsto> Str ''pvorb'']\<rparr>,
        4 := \<lparr>kind = PlainObject, props = [''safe'' \<mapsto> Bool False]\<rparr>,
        5 := \<lparr>kind = DriverObject ''Db'', props = Map.empty\<rparr>,
        6 := \<lparr>kind = DBInstance, props = [''_db'' \<mapsto> Ref 5]\<rparr>,
        7 := \<lparr>kind = ArrayObject [Str ''_id''], props = Map.empty\<rparr>,
        8 := \<lparr>kind = ArrayObject [], props = Map.empty\<rparr>,
        9 := \<lparr>kind = PlainObject, props = [''_id'' \<mapsto> Num 7]\<rparr>,
        10 := \<lparr>kind = DriverObject ''Error'', props = Map.empty\<rparr>)"

definition sample :: state where
  "sample = \<lparr>cells = sample_cells, fresh = 11, trace = [], seen = []\<rparr>"

text \<open>The same with one more object, a record without \<open>_id\<close>.\<close>

definition author :: state where
  "author =
     \<lparr>cells = sample_cells(11 := \<lparr>kind = PlainObject, props = [''name'' \<mapsto> Str ''pvorb'']\<rparr>),
      fresh = 12, trace = [], seen = []\<rparr>"

section \<open>Running a computation\<close>

lemma post_iff: "post m s Q = (\<exists>x s'. m s = (Inr x, s') \<and> Q x s')"
  by (auto simp: post_def split: prod.splits sum.splits)

lemma post_mono: "post m s Q \<Longrightarrow> (\<And>x s'. Q x s' \<Longrightarrow> Q' x s') \<Longrightarrow> post m s Q'"
  by (auto simp: post_def split: prod.splits sum.splits)

lemma post_return [simp]: "post (js_return x) s Q = Q x s"
  by (simp add: post_def js_return_def)

lemma post_bind [simp]: "post (js_bind m f) s Q = post m s (\<lambda>x s'. post (f x) s' Q)"
  by (simp add: post_def js_bind_def split: prod.splits sum.splits)

lemma post_throw [simp]: "post (js_throw e) s Q = False"
  by (simp add: post_def js_throw_def)

lemma post_alloc [simp]:
  "post (alloc ob) s Q =
     Q (Ref (fresh s)) (s\<lparr>cells := (cells s)(fresh s := ob), fresh := Suc (fresh s)\<rparr>)"
  by (simp add: post_def alloc_def)

lemma post_emit [simp]: "post (emit e) s Q = Q () (s\<lparr>trace := trace s @ [e]\<rparr>)"
  by (simp add: post_def emit_def)

lemma post_setprop_Ref [simp]:
  "post (setprop (Ref a) p x) s Q =
     Q () (s\<lparr>cells := (cells s)(a := (cells s a)\<lparr>props := (props (cells s a))(p \<mapsto> x)\<rparr>)\<rparr>)"
  by (simp add: post_def setprop_def)

lemma post_getprop_Ref [simp]:
  "p \<noteq> ''length'' \<Longrightarrow>
   post (getprop (Ref a) p) s Q =
     Q (case props (cells s a) p of None \<Rightarrow> Undefined | Some x \<Rightarrow> x) s"
  by (simp add: post_def getprop_def split: objkind.splits)

lemma post_snapshot [simp]: "post snapshot s Q = Q () (s\<lparr>seen := seen s @ [cells s]\<rparr>)"
  by (simp add: post_def snapshot_def)

lemma post_request_Ref [simp]:
  "post (request (Ref d) meth xs) s Q =
     Q () (s\<lparr>seen := seen s @ [cells s], trace := trace s @ [Request (Ref d) meth xs]\<rparr>)"
  by (simp add: request_def)

lemma post_invoke [simp]:
  "post (invoke f xs) s Q = (is_function s f \<and> Q () (s\<lparr>trace := trace s @ [Invoke f xs]\<rparr>))"
  by (simp add: post_def invoke_def emit_def)

lemma param_Nil: "param [] i = Undefined"
  by (simp add: param_def)

lemma param_Cons_0: "param (x # xs) 0 = x"
  by (simp add: param_def)

lemma param_Cons_Suc: "param (x # xs) (Suc i) = param xs i"
  by (simp add: param_def)

lemma param_Cons_numeral: "param (x # xs) (numeral k) = param xs (pred_numeral k)"
  by (simp add: param_def nth_Cons_numeral)

lemmas param_simps = param_Nil param_Cons_0 param_Cons_Suc param_Cons_numeral

section \<open>The regular expression\<close>

lemma hex_class_iff: "hex_class c = (c \<in> set ''0123456789abcdefABCDEF'')"
  unfolding hex_class_def in_range_def by (cases c) simp

lemma match_hex_iff: "match_hex n t = (length t = n \<and> (\<forall>c \<in> set t. hex_class c))"
  by (induction n t rule: match_hex.induct) auto

lemma test_hex24_iff: "test_hex24 t = is_24_hex_string t"
  by (simp add: test_hex24_def is_24_hex_string_def match_hex_iff hex_class_iff del: set_simps)

section \<open>What \<open>fixID\<close> does to an object\<close>

lemma fixID_Ref:
  "a < fresh s \<Longrightarrow> fixID (Ref a) s =
     (case hex_of (props (cells s a) ''_id'') of
        Some t \<Rightarrow>
          (Inr (),
           s\<lparr>cells := (cells s)
                (fresh s := \<lparr>kind = ObjectIDObject t, props = Map.empty\<rparr>,
                 a := (cells s a)\<lparr>props := (props (cells s a))(''_id'' \<mapsto> Ref (fresh s))\<rparr>),
             fresh := Suc (fresh s)\<rparr>)
      | None \<Rightarrow> (Inr (), s))"
  by (auto simp: fixID_def hex_of_def getprop_def js_bind_def typeof_def createFromHexString_def
        alloc_def setprop_def
      split: option.splits jsval.splits objkind.splits)

lemma post_fixID_Ref [simp]:
  "a < fresh s \<Longrightarrow> post (fixID (Ref a)) s Q =
     (case hex_of (props (cells s a) ''_id'') of
        Some t \<Rightarrow>
          Q () (s\<lparr>cells := (cells s)
                    (fresh s := \<lparr>kind = ObjectIDObject t, props = Map.empty\<rparr>,
                     a := (cells s a)\<lparr>props := (props (cells s a))(''_id'' \<mapsto> Ref (fresh s))\<rparr>),
                  fresh := Suc (fresh s)\<rparr>)
      | None \<Rightarrow> Q () s)"
  by (simp add: post_def fixID_Ref split: option.splits)

lemma id_forwarded_hex:
  "hex_of before = Some t \<Longrightarrow> id_forwarded s s' before after = native_id s s' after t"
  by (auto simp: id_forwarded_def hex_of_def test_hex24_iff
      split: option.splits jsval.splits if_splits)

lemma id_forwarded_other:
  "hex_of before = None \<Longrightarrow> id_forwarded s s' before after = (after = before)"
  by (auto simp: id_forwarded_def hex_of_def test_hex24_iff
      split: option.splits jsval.splits if_splits)

lemma id_seen_hex:
  "hex_of before = Some t \<Longrightarrow>
   id_seen s view before after =
     (case after of
        Some (Ref i) \<Rightarrow> fresh s \<le> i \<and> kind (view i) = ObjectIDObject t
      | _ \<Rightarrow> False)"
  by (auto simp: id_seen_def hex_of_def test_hex24_iff
      split: option.splits jsval.splits if_splits)

lemma id_seen_other:
  assumes "hex_of before = None"
  shows "id_seen s view before after = (after = before)"
proof (cases before)
  case None
  then show ?thesis by (simp add: id_seen_def)
next
  case (Some v)
  with assms show ?thesis
    by (cases v) (simp_all add: id_seen_def hex_of_def test_hex24_iff split: if_splits)
qed

section \<open>The methods of the collection handle, one by one\<close>

lemma handleD:
  assumes "collection_handle s this coll"
  obtains c d where "this = Ref c" "c < fresh s"
    "props (cells s c) ''_coll'' = Some (Ref d)" "coll = Ref d"
  using assms by (auto simp: collection_handle_def is_ref_def split: jsval.splits)

lemmas stmt_defs = issued_def forwards_def store_method_def fixed_arg_def param_def
  id_forwarded_hex id_forwarded_other native_id_def wrote_def
  views_def sent_id_def id_seen_hex id_seen_other

lemma find_effect:
  assumes h: "collection_handle s this coll" and q: "param args 0 = Ref a" "a < fresh s"
  shows "post (Collection_find this args) s (\<lambda>_ s'.
           forwards Find coll a (issued s s') \<and> sent_id s s' a \<and>
           id_forwarded s s' (props (cells s a) ''_id'') (props (cells s' a) ''_id''))"
proof -
  from h obtain c d where hd: "this = Ref c" "c < fresh s"
      "props (cells s c) ''_coll'' = Some (Ref d)" "coll = Ref d"
    by (rule handleD)
  show ?thesis using hd q
    by (cases "hex_of (props (cells s a) ''_id'')")
       (auto simp: Collection_find_def Let_def new_object_def request_cursor_def stmt_defs)
qed

lemma findOne_effect:
  assumes h: "collection_handle s this coll" and q: "param args 0 = Ref a" "a < fresh s"
  shows "post (Collection_findOne this args) s (\<lambda>_ s'.
           forwards FindOne coll a (issued s s') \<and> sent_id s s' a \<and>
           id_forwarded s s' (props (cells s a) ''_id'') (props (cells s' a) ''_id''))"
proof -
  from h obtain c d where hd: "this = Ref c" "c < fresh s"
      "props (cells s c) ''_coll'' = Some (Ref d)" "coll = Ref d"
    by (rule handleD)
  show ?thesis using hd q
    by (cases "hex_of (props (cells s a) ''_id'')")
       (auto simp: Collection_findOne_def Let_def new_object_def stmt_defs)
qed

lemma save_effect:
  assumes h: "collection_handle s this coll" and q: "param args 0 = Ref a" "a < fresh s"
    and o: "options_usable s Save args"
  shows "post (Collection_save this args) s (\<lambda>_ s'. \<exists>b.
           wrote s s' coll ''save''
             [Ref a, Ref b, if length args = 2 then param args 1 else param args 2] a b \<and>
           (length args \<noteq> 2 \<longrightarrow> param args 1 = Ref b))"
proof -
  from h obtain c d where hd: "this = Ref c" "c < fresh s"
      "props (cells s c) ''_coll'' = Some (Ref d)" "coll = Ref d"
    by (rule handleD)
  show ?thesis
  proof (cases "length args = 2")
    case True
    show ?thesis using hd q True
      by (cases "hex_of (props (cells s a) ''_id'')")
         (auto simp: Collection_save_def Let_def new_object_def stmt_defs)
  next
    case False
    with o obtain b where b: "param args 1 = Ref b" "b < fresh s"
      by (auto simp: options_usable_def is_ref_def allocated_def split: jsval.splits)
    show ?thesis using hd q False b
      by (cases "hex_of (props (cells s a) ''_id'')")
         (auto simp: Collection_save_def Let_def stmt_defs)
  qed
qed

lemma delete_effect:
  assumes h: "collection_handle s this coll" and q: "param args 0 = Ref a" "a < fresh s"
    and o: "options_usable s Delete args"
  shows "post (Collection_delete this args) s (\<lambda>_ s'. \<exists>b.
           wrote s s' coll ''remove''
             [Ref a, Ref b, if length args = 2 then param args 1 else param args 2] a b \<and>
           (length args \<noteq> 2 \<longrightarrow> param args 1 = Ref b))"
proof -
  from h obtain c d where hd: "this = Ref c" "c < fresh s"
      "props (cells s c) ''_coll'' = Some (Ref d)" "coll = Ref d"
    by (rule handleD)
  show ?thesis
  proof (cases "length args = 2")
    case True
    show ?thesis using hd q True
      by (cases "hex_of (props (cells s a) ''_id'')")
         (auto simp: Collection_delete_def Let_def new_object_def stmt_defs)
  next
    case False
    with o obtain b where b: "param args 1 = Ref b" "b < fresh s"
      by (auto simp: options_usable_def is_ref_def allocated_def split: jsval.splits)
    show ?thesis using hd q False b
      by (cases "hex_of (props (cells s a) ''_id'')")
         (auto simp: Collection_delete_def Let_def stmt_defs)
  qed
qed

lemma update_effect:
  assumes h: "collection_handle s this coll" and q: "param args 1 = Ref a" "a < fresh s"
    and o: "options_usable s Update args"
  shows "post (Collection_update this args) s (\<lambda>_ s'. \<exists>b.
           wrote s s' coll ''update''
             [param args 0, Ref a, Ref b, if length args = 3 then param args 2 else param args 3]
             a b \<and>
           (length args \<noteq> 3 \<longrightarrow> param args 2 = Ref b))"
proof -
  from h obtain c d where hd: "this = Ref c" "c < fresh s"
      "props (cells s c) ''_coll'' = Some (Ref d)" "coll = Ref d"
    by (rule handleD)
  show ?thesis
  proof (cases "length args = 3")
    case True
    show ?thesis using hd q True
      by (cases "hex_of (props (cells s a) ''_id'')")
         (auto simp: Collection_update_def Let_def new_object_def stmt_defs)
  next
    case False
    with o obtain b where b: "param args 2 = Ref b" "b < fresh s"
      by (auto simp: options_usable_def is_ref_def allocated_def split: jsval.splits)
    show ?thesis using hd q False b
      by (cases "hex_of (props (cells s a) ''_id'')")
         (auto simp: Collection_update_def Let_def stmt_defs)
  qed
qed

text \<open>
  \<open>count\<close> with two or three arguments passes the caller's callback on; with one
  argument the position of the callback holds the missing second parameter.
\<close>

lemma count_effect:
  assumes h: "collection_handle s this coll" and q: "param args 0 = Ref a" "a < fresh s"
    and o: "options_usable s Count args"
  shows "post (Collection_count this args) s (\<lambda>_ s'. \<exists>b.
           wrote s s' coll ''count''
             [Ref a, Ref b,
              if length args = 2 \<or> length args = 1 then param args 1 else param args 2] a b)"
proof -
  from h obtain c d where hd: "this = Ref c" "c < fresh s"
      "props (cells s c) ''_coll'' = Some (Ref d)" "coll = Ref d"
    by (rule handleD)
  show ?thesis
  proof (cases "length args = 2 \<or> length args = 1")
    case True
    show ?thesis using hd q True
      by (cases "hex_of (props (cells s a) ''_id'')")
         (auto simp: Collection_count_def Let_def new_object_def stmt_defs)
  next
    case False
    with o obtain b where b: "param args 1 = Ref b" "b < fresh s"
      by (auto simp: options_usable_def is_ref_def allocated_def split: jsval.splits)
    show ?thesis using hd q False b
      by (cases "hex_of (props (cells s a) ''_id'')")
         (auto simp: Collection_count_def Let_def stmt_defs)
  qed
qed

text \<open>What \<open>wrote\<close> says about the store shown to the driver.\<close>

lemma id_forwarded_seen:
  assumes "id_forwarded s s' before after"
  shows "id_seen s (cells s') before after"
proof (cases "hex_of before")
  case None
  with assms show ?thesis
    by (simp add: id_forwarded_other id_seen_other)
next
  case (Some t)
  with assms show ?thesis
    by (auto simp: id_forwarded_hex id_seen_hex native_id_def split: option.splits jsval.splits)
qed

lemma wroteD:
  assumes "wrote s s' coll meth xs a b"
  shows "issued s s' = [Request coll meth xs] \<and> sent_id s s' a \<and> sent_safe s s' b \<and>
         id_forwarded s s' (props (cells s a) ''_id'') (props (cells s' a) ''_id'') \<and>
         props (cells s' b) ''safe'' = Some (Bool True)"
  using assms by (simp add: wrote_def sent_id_def sent_safe_def id_forwarded_seen)

text \<open>All six at once: the object handed to \<open>fixID\<close> is the one the driver receives.\<close>

lemma method_effect:
  assumes h: "collection_handle s this coll"
    and q: "param args (fixed_arg m) = Ref a" "a < fresh s"
    and o: "options_usable s m args"
  shows "post (Collection_prototype m this args) s (\<lambda>_ s'.
           forwards m coll a (issued s s') \<and> sent_id s s' a \<and>
           id_forwarded s s' (props (cells s a) ''_id'') (props (cells s' a) ''_id''))"
proof (cases m)
  case Find
  with h q show ?thesis
    using find_effect [of s this coll args a]
    by (simp add: Collection_prototype_def fixed_arg_def)
next
  case FindOne
  with h q show ?thesis
    using findOne_effect [of s this coll args a]
    by (simp add: Collection_prototype_def fixed_arg_def)
next
  case Save
  with h q o show ?thesis
    using save_effect [of s this coll args a]
    by (auto simp: post_iff Collection_prototype_def forwards_def store_method_def fixed_arg_def
          param_simps dest!: wroteD)
next
  case Update
  with h q o show ?thesis
    using update_effect [of s this coll args a]
    by (auto simp: post_iff Collection_prototype_def forwards_def store_method_def fixed_arg_def
          param_simps dest!: wroteD)
next
  case Delete
  with h q o show ?thesis
    using delete_effect [of s this coll args a]
    by (auto simp: post_iff Collection_prototype_def forwards_def store_method_def fixed_arg_def
          param_simps dest!: wroteD)
next
  case Count
  with h q o show ?thesis
    using count_effect [of s this coll args a]
    by (auto simp: post_iff Collection_prototype_def forwards_def store_method_def fixed_arg_def
          param_simps dest!: wroteD)
qed

section \<open>The loop over the index list\<close>

lemma for_each_ensure:
  "post (for_each xs (\<lambda>index.
           js_bind (new_closure EnsureIndexDone) (\<lambda>k.
           request (Ref d) ''ensureIndex'' [index, k]))) s
     (\<lambda>_ s'. trace s' = trace s @ ensure_requests (Ref d) (fresh s) xs \<and>
              fresh s' = fresh s + length xs \<and>
              (\<forall>b. b < fresh s \<longrightarrow> cells s' b = cells s b) \<and>
              (\<forall>b. fresh s \<le> b \<and> b < fresh s' \<longrightarrow>
                   kind (cells s' b) = FunctionObject EnsureIndexDone))"
proof (induction xs arbitrary: s)
  case Nil
  show ?case by auto
next
  case (Cons x xs)
  let ?s1 = "s\<lparr>cells := (cells s)
                 (fresh s := \<lparr>kind = FunctionObject EnsureIndexDone, props = Map.empty\<rparr>),
               fresh := Suc (fresh s),
               seen := seen s @
                 [(cells s)
                    (fresh s := \<lparr>kind = FunctionObject EnsureIndexDone, props = Map.empty\<rparr>)],
               trace := trace s @ [Request (Ref d) ''ensureIndex'' [x, Ref (fresh s)]]\<rparr>"
  have "post (for_each xs (\<lambda>index.
           js_bind (new_closure EnsureIndexDone) (\<lambda>k.
           request (Ref d) ''ensureIndex'' [index, k]))) ?s1
     (\<lambda>_ s'. trace s' = trace s @ ensure_requests (Ref d) (fresh s) (x # xs) \<and>
              fresh s' = fresh s + length (x # xs) \<and>
              (\<forall>b. b < fresh s \<longrightarrow> cells s' b = cells s b) \<and>
              (\<forall>b. fresh s \<le> b \<and> b < fresh s' \<longrightarrow>
                   kind (cells s' b) = FunctionObject EnsureIndexDone))"
  proof (rule post_mono [OF Cons.IH [of ?s1]], goal_cases)
    case (1 u s')
    then show ?case
      apply clarsimp
      apply (case_tac "b = fresh s")
       apply simp_all
      done
  qed
  then show ?case by (simp add: new_closure_def)
qed

section \<open>The database handle and the connection, step by step\<close>

lemma db_handleD:
  assumes "db_handle s this db"
  obtains c d where "this = Ref c" "props (cells s c) ''_db'' = Some (Ref d)" "db = Ref d"
  using assms by (auto simp: db_handle_def is_ref_def split: jsval.splits)

text \<open>
  \<open>getCollection\<close> asks the driver for the collection and passes a function that
  holds the name, the index list and the callback; with two arguments the index
  list is \<open>null\<close> and the second argument is the callback.
\<close>

lemma getCollection_registers:
  assumes "db_handle s this db"
  shows "post (DB_getCollection this args) s (\<lambda>_ s'.
           issued s s' = [Request db ''collection'' [param args 0, Ref (fresh s)]] \<and>
           kind (cells s' (fresh s)) =
             FunctionObject (CollectionResolved (param args 0)
               (if length args = 2 then Null else param args 1)
               (if length args = 2 then param args 1 else param args 2)))"
proof -
  from assms obtain c d where "this = Ref c" "props (cells s c) ''_db'' = Some (Ref d)" "db = Ref d"
    by (rule db_handleD)
  then show ?thesis
    by (simp add: DB_getCollection_def Let_def new_closure_def issued_def)
qed

lemma resolved_reports_error:
  assumes "truthy err" and "is_function t cb"
  shows "apply_closure (CollectionResolved name ix cb) (err # rest) t =
           (Inr (), t\<lparr>trace := trace t @ [Invoke cb [err]]\<rparr>)"
  using assms
  by (simp add: apply_closure_def getCollection_resolved_def Let_def param_simps invoke_def emit_def)

lemma resolved_no_indexes:
  assumes "\<not> truthy err" and "is_function t cb" and "allocated t cb"
    and "ix = Null \<or> (\<exists>a. ix = Ref a \<and> kind (cells t a) = ArrayObject [])"
  shows "post (apply_closure (CollectionResolved name ix cb) [err, coll]) t (\<lambda>_ t'.
           issued t t' = [Invoke cb [Null, Ref (fresh t)]] \<and>
           is_handle_for t' (Ref (fresh t)) name coll)"
  using assms
  by (auto simp: apply_closure_def getCollection_resolved_def Let_def param_def no_indexes_def
        Collection_def issued_def is_handle_for_def is_function_def allocated_def post_def
        js_bind_def alloc_def invoke_def emit_def
      split: jsval.splits objkind.splits)

lemma resolved_with_indexes:
  assumes "\<not> truthy err" and "is_function t cb" and "allocated t cb"
    and "kind (cells t a) = ArrayObject xs" and "xs \<noteq> []" and "coll = Ref d"
  shows "post (apply_closure (CollectionResolved name (Ref a) cb) [err, coll]) t (\<lambda>_ t'.
           issued t t' =
             ensure_requests coll (fresh t) xs @ [Invoke cb [Null, Ref (fresh t + length xs)]] \<and>
           (\<forall>b. fresh t \<le> b \<and> b < fresh t + length xs \<longrightarrow>
                kind (cells t' b) = FunctionObject EnsureIndexDone) \<and>
           is_handle_for t' (Ref (fresh t + length xs)) name coll)"
proof -
  have no: "no_indexes (Ref a) t = (Inr False, t)"
    using assms by (simp add: no_indexes_def)
  have fe: "forEach (Ref a) f t = for_each xs f t" for f
    using assms by (simp add: forEach_def)
  have loop: "post (forEach (Ref a) (\<lambda>index.
                js_bind (new_closure EnsureIndexDone) (\<lambda>k.
                request (Ref d) ''ensureIndex'' [index, k]))) t
     (\<lambda>_ s'. trace s' = trace t @ ensure_requests (Ref d) (fresh t) xs \<and>
              fresh s' = fresh t + length xs \<and>
              (\<forall>b. b < fresh t \<longrightarrow> cells s' b = cells t b) \<and>
              (\<forall>b. fresh t \<le> b \<and> b < fresh s' \<longrightarrow>
                   kind (cells s' b) = FunctionObject EnsureIndexDone))"
    using for_each_ensure [of xs d t] by (simp add: post_def fe)
  have "post (js_bind (forEach (Ref a) (\<lambda>index.
                js_bind (new_closure EnsureIndexDone) (\<lambda>k.
                request (Ref d) ''ensureIndex'' [index, k])))
               (\<lambda>_. js_bind (Collection name coll) (\<lambda>c. invoke cb [Null, c]))) t (\<lambda>_ t'.
           issued t t' =
             ensure_requests coll (fresh t) xs @ [Invoke cb [Null, Ref (fresh t + length xs)]] \<and>
           (\<forall>b. fresh t \<le> b \<and> b < fresh t + length xs \<longrightarrow>
                kind (cells t' b) = FunctionObject EnsureIndexDone) \<and>
           is_handle_for t' (Ref (fresh t + length xs)) name coll)"
    unfolding post_bind
  proof (rule post_mono [OF loop], goal_cases)
    case (1 u s')
    then show ?case using assms(2,3,6)
      by (auto simp: Collection_def issued_def is_handle_for_def is_function_def allocated_def
          split: jsval.splits)
  qed
  then show ?thesis using assms(1,6) no
    by (simp add: apply_closure_def getCollection_resolved_def Let_def param_def post_def
          js_bind_def)
qed

text \<open>The function handed to \<open>ensureIndex\<close> does nothing, whatever it is called with.\<close>

lemma ensureIndex_done_silent: "apply_closure EnsureIndexDone args u = (Inr (), u)"
  by (simp add: apply_closure_def ensureIndex_done_def js_return_def)

text \<open>
  \<open>connect\<close> with options and a callback: the defaults, the two flags, the two
  objects of the driver, and the function passed to \<open>open\<close>, which holds the
  callback.
\<close>

lemma connect_two_arguments:
  assumes "a < fresh s"
  shows "post (connect [Ref a, cb]) s (\<lambda>_ s'.
           issued s s' =
             [Construct ''Server''
                [or_else (case props (cells s a) ''host'' of None \<Rightarrow> Undefined | Some x \<Rightarrow> x)
                   (Str ''localhost''),
                 or_else (case props (cells s a) ''port'' of None \<Rightarrow> Undefined | Some x \<Rightarrow> x)
                   (Num 27017),
                 Ref a] (Ref (fresh s)),
              Construct ''Db''
                [case props (cells s a) ''name'' of None \<Rightarrow> Undefined | Some x \<Rightarrow> x,
                 Ref (fresh s), Ref a] (Ref (Suc (fresh s))),
              Request (Ref (Suc (fresh s))) ''open'' [Ref (Suc (Suc (fresh s)))]] \<and>
           kind (cells s' (Suc (Suc (fresh s)))) = FunctionObject (ConnectOpened cb) \<and>
           props (cells s' a) ''strict'' = Some (Bool False) \<and>
           props (cells s' a) ''safe'' = Some (Bool True))"
  using assms
  by (simp add: connect_def Let_def param_simps construct_def new_closure_def issued_def)

lemma connect_opened_reports_error:
  assumes "truthy err" and "is_function t cb"
  shows "apply_closure (ConnectOpened cb) (err # rest) t =
           (Inr (), t\<lparr>trace := trace t @ [Invoke cb [err]]\<rparr>)"
  using assms
  by (simp add: apply_closure_def connect_opened_def Let_def param_simps invoke_def emit_def)

lemma connect_opened_hands_over:
  assumes "\<not> truthy err" and "is_function t cb" and "allocated t cb"
  shows "post (apply_closure (ConnectOpened cb) [err, conn]) t (\<lambda>_ t'.
           issued t t' = [Invoke cb [Null, Ref (fresh t)]] \<and>
           kind (cells t' (fresh t)) = DBInstance \<and>
           props (cells t' (fresh t)) ''_db'' = Some conn)"
  using assms
  by (auto simp: apply_closure_def connect_opened_def Let_def param_simps DB_def issued_def
        is_function_def allocated_def split: jsval.splits)

text \<open>
  With \<open>undefined\<close> in the place of the callback, the function passed to \<open>open\<close>
  throws whatever the driver reports, and calls nothing.
\<close>

lemma connect_opened_without_callback:
  "fst (apply_closure (ConnectOpened Undefined) args t) = Inl TypeError \<and>
   trace (snd (apply_closure (ConnectOpened Undefined) args t)) = trace t"
  by (simp add: apply_closure_def connect_opened_def Let_def DB_def js_bind_def alloc_def
        invoke_def is_function_def)

section \<open>The modelled store, step by step\<close>

lemma find_appended:
  assumes "\<forall>y \<in> set xs. \<not> P y" and "P x"
  shows "find P (xs @ [x]) = Some x"
  using assms by (induction xs) simp_all

lemma find_appended_key:
  assumes "OidKey g \<notin> doc_key ` set docs"
  shows "find (\<lambda>d. doc_key d = OidKey g) (docs @ [\<lparr>doc_key = OidKey g, doc_fields = F\<rparr>]) =
           Some \<lparr>doc_key = OidKey g, doc_fields = F\<rparr>"
proof -
  from assms have "\<forall>y \<in> set docs. \<not> doc_key y = OidKey g"
    by force
  then show ?thesis
    by (rule find_appended) simp
qed

lemma post_store_save_new:
  assumes "a < fresh s" and "props (cells s a) ''_id'' = None"
    and "OidKey g \<notin> doc_key ` set docs"
  shows "post (store_save g docs (Ref a)) s Q =
     Q ([Null, Ref a],
        docs @ [\<lparr>doc_key = OidKey g,
                 doc_fields = (props (cells s a))(''_id'' \<mapsto> Ref (fresh s))\<rparr>])
       (s\<lparr>fresh := Suc (fresh s),
          cells := (cells s)
             (fresh s := \<lparr>kind = ObjectIDObject g, props = Map.empty\<rparr>,
              a := (cells s a)\<lparr>props := (props (cells s a))(''_id'' \<mapsto> Ref (fresh s))\<rparr>)\<rparr>)"
  using assms
  by (simp add: post_def store_save_def js_bind_def alloc_def setprop_def)

lemma post_store_findOne_new:
  assumes "props (cells s q) ''_id'' = Some (Ref i)"
    and "kind (cells s i) = ObjectIDObject g"
    and "OidKey g \<notin> doc_key ` set docs"
  shows "post (store_findOne (docs @ [\<lparr>doc_key = OidKey g, doc_fields = F\<rparr>]) (Ref q)) s Q =
     Q [Null, Ref (fresh s)]
       (s\<lparr>cells := (cells s)(fresh s := \<lparr>kind = PlainObject, props = F\<rparr>),
          fresh := Suc (fresh s)\<rparr>)"
  using assms
  by (simp add: post_def store_findOne_def id_key_of_def find_appended_key js_bind_def
        js_return_def alloc_def)

lemma post_requested:
  assumes "trace s = evs @ [Request r m args]"
  shows "post (requested m) s Q = Q args s"
  using assms by (simp add: post_def requested_def)

lemma hex_of_simps:
  "hex_of None = None" "hex_of (Some (Ref i)) = None"
  by (simp_all add: hex_of_def)

lemmas run_defs = js_bind_def js_return_def alloc_def setprop_def getprop_def request_def
  snapshot_def emit_def new_object_def

text \<open>
  \<open>save\<close> of a record without \<open>_id\<close>: the record is not touched, and the store
  shown to the driver is the caller's with the new options object.
\<close>

lemma save_plain:
  assumes "collection_handle s this coll" and "a < fresh s"
    and "props (cells s a) ''_id'' = None"
  shows "post (Collection_save this [Ref a, cb]) s Q =
     Q () (s\<lparr>cells := (cells s)
                (fresh s := \<lparr>kind = PlainObject, props = [''safe'' \<mapsto> Bool True]\<rparr>),
             fresh := Suc (fresh s),
             seen := seen s @
               [(cells s)(fresh s := \<lparr>kind = PlainObject, props = [''safe'' \<mapsto> Bool True]\<rparr>)],
             trace := trace s @ [Request coll ''save'' [Ref a, Ref (fresh s), cb]]\<rparr>)"
proof -
  from assms(1) obtain c d where hd: "this = Ref c" "c < fresh s"
      "props (cells s c) ''_coll'' = Some (Ref d)" "coll = Ref d"
    by (rule handleD)
  have "Collection_save this [Ref a, cb] s =
     (Inr (), s\<lparr>cells := (cells s)
                (fresh s := \<lparr>kind = PlainObject, props = [''safe'' \<mapsto> Bool True]\<rparr>),
             fresh := Suc (fresh s),
             seen := seen s @
               [(cells s)(fresh s := \<lparr>kind = PlainObject, props = [''safe'' \<mapsto> Bool True]\<rparr>)],
             trace := trace s @ [Request coll ''save'' [Ref a, Ref (fresh s), cb]]\<rparr>)"
    using hd assms(2,3)
    by (auto simp: Collection_save_def Let_def param_simps run_defs fixID_Ref hex_of_simps
        split: objkind.splits)
  then show ?thesis by (simp add: post_def)
qed

text \<open>
  \<open>findOne\<close> with a query whose \<open>_id\<close> is not a string of 24 hexadecimal
  characters: the query is not touched.
\<close>

lemma findOne_by_id:
  assumes "collection_handle s this coll" and "q < fresh s"
    and "hex_of (props (cells s q) ''_id'') = None"
  shows "post (Collection_findOne this [Ref q, cb]) s Q =
     Q () (s\<lparr>cells := (cells s)(fresh s := \<lparr>kind = PlainObject, props = Map.empty\<rparr>),
             fresh := Suc (fresh s),
             seen := seen s @ [(cells s)(fresh s := \<lparr>kind = PlainObject, props = Map.empty\<rparr>)],
             trace := trace s @ [Request coll ''findOne'' [Ref q, Ref (fresh s), cb]]\<rparr>)"
proof -
  from assms(1) obtain c d where hd: "this = Ref c" "c < fresh s"
      "props (cells s c) ''_coll'' = Some (Ref d)" "coll = Ref d"
    by (rule handleD)
  have "Collection_findOne this [Ref q, cb] s =
     (Inr (), s\<lparr>cells := (cells s)(fresh s := \<lparr>kind = PlainObject, props = Map.empty\<rparr>),
             fresh := Suc (fresh s),
             seen := seen s @ [(cells s)(fresh s := \<lparr>kind = PlainObject, props = Map.empty\<rparr>)],
             trace := trace s @ [Request coll ''findOne'' [Ref q, Ref (fresh s), cb]]\<rparr>)"
    using hd assms(2,3)
    by (auto simp: Collection_findOne_def Let_def param_simps run_defs fixID_Ref
        split: objkind.splits)
  then show ?thesis by (simp add: post_def)
qed

lemmas sample_defs = sample_def sample_cells_def empty_obj_def

section \<open>Identifier coercion on the way to the store\<close>

text \<open>
  Claim C1. For each of \<open>find\<close>, \<open>findOne\<close>, \<open>save\<close>, \<open>update\<close> (its record),
  \<open>delete\<close> and \<open>count\<close>, called on a collection handle with an object \<open>a\<close> as
  query or record: the call returns, and its first request goes to the driver's
  collection and carries that same object. In the store shown to the driver by
  that request, the \<open>_id\<close> of the object is a new native ObjectID made from the
  string exactly when it was a string of 24 hexadecimal characters; any other
  \<open>_id\<close>, absent or of any other type or shape, is as it was. The same holds of
  the store when the call has returned.
\<close>

theorem coerced_id_forwarded:
  assumes "collection_handle s this coll"
    and "param args (fixed_arg m) = Ref a" and "a < fresh s"
    and "options_usable s m args"
  shows "\<exists>s'. Collection_prototype m this args s = (Inr (), s') \<and>
              forwards m coll a (issued s s') \<and>
              sent_id s s' a \<and>
              id_forwarded s s' (props (cells s a) ''_id'') (props (cells s' a) ''_id'')"
  using method_effect [OF assms] by (auto simp: post_iff)

theorem coerced_id_forwarded_witness:
  "collection_handle sample (Ref 2) (Ref 1) \<and>
   param [Ref 3, Ref 0] (fixed_arg Save) = Ref 3 \<and> 3 < fresh sample \<and>
   options_usable sample Save [Ref 3, Ref 0] \<and>
   param [Ref 9, Ref 0] (fixed_arg FindOne) = Ref 9 \<and> 9 < fresh sample \<and>
   options_usable sample FindOne [Ref 9, Ref 0] \<and>
   (\<exists>s'. Collection_prototype Save (Ref 2) [Ref 3, Ref 0] sample = (Inr (), s') \<and>
          forwards Save (Ref 1) 3 (issued sample s') \<and>
          sent_id sample s' 3 \<and>
          native_id sample s' (props (cells s' 3) ''_id'') ''4f2a9C01bd33e7A5c0ffEE12'') \<and>
   (\<exists>s'. Collection_prototype FindOne (Ref 2) [Ref 9, Ref 0] sample = (Inr (), s') \<and>
          forwards FindOne (Ref 1) 9 (issued sample s') \<and>
          sent_id sample s' 9 \<and>
          props (cells s' 9) ''_id'' = Some (Num 7))"
proof -
  have h: "collection_handle sample (Ref 2) (Ref 1)"
    by (simp add: collection_handle_def is_ref_def sample_defs)
  have q3: "param [Ref 3, Ref 0] (fixed_arg Save) = Ref 3" "3 < fresh sample"
    by (simp_all add: param_def fixed_arg_def sample_def)
  have o3: "options_usable sample Save [Ref 3, Ref 0]"
    by (simp add: options_usable_def)
  have q9: "param [Ref 9, Ref 0] (fixed_arg FindOne) = Ref 9" "9 < fresh sample"
    by (simp_all add: param_def fixed_arg_def sample_def)
  have o9: "options_usable sample FindOne [Ref 9, Ref 0]"
    by (simp add: options_usable_def)
  have b3: "props (cells sample 3) ''_id'' = Some (Str ''4f2a9C01bd33e7A5c0ffEE12'')"
    by (simp add: sample_defs)
  have hex: "is_24_hex_string ''4f2a9C01bd33e7A5c0ffEE12''"
    by (simp add: is_24_hex_string_def)
  have b9: "props (cells sample 9) ''_id'' = Some (Num 7)"
    by (simp add: sample_defs)
  show ?thesis
    using h q3 o3 q9 o9 coerced_id_forwarded [OF h q3 o3] coerced_id_forwarded [OF h q9 o9]
    by (simp add: b3 b9 hex id_forwarded_def)
qed

text \<open>
  Claim C9. The coercion is a write to the caller's own object: after a call of
  any of the six methods whose query or record \<open>a\<close> had a string of 24 hexadecimal
  characters as \<open>_id\<close>, the \<open>_id\<close> of that very object is the new native ObjectID.
\<close>

theorem id_coerced_in_place:
  assumes "collection_handle s this coll"
    and "param args (fixed_arg m) = Ref a" and "a < fresh s"
    and "options_usable s m args"
    and "props (cells s a) ''_id'' = Some (Str t)" and "is_24_hex_string t"
  shows "\<exists>s'. Collection_prototype m this args s = (Inr (), s') \<and>
              native_id s s' (props (cells s' a) ''_id'') t"
  using method_effect [OF assms(1-4)] assms(5,6) by (auto simp: post_iff id_forwarded_def)

theorem id_coerced_in_place_witness:
  "collection_handle sample (Ref 2) (Ref 1) \<and>
   param [Ref 3, Ref 4, Ref 0] (fixed_arg Delete) = Ref 3 \<and> 3 < fresh sample \<and>
   options_usable sample Delete [Ref 3, Ref 4, Ref 0] \<and>
   props (cells sample 3) ''_id'' = Some (Str ''4f2a9C01bd33e7A5c0ffEE12'') \<and>
   is_24_hex_string ''4f2a9C01bd33e7A5c0ffEE12'' \<and>
   (\<exists>s'. Collection_prototype Delete (Ref 2) [Ref 3, Ref 4, Ref 0] sample = (Inr (), s') \<and>
          native_id sample s' (props (cells s' 3) ''_id'') ''4f2a9C01bd33e7A5c0ffEE12'')"
proof -
  have h: "collection_handle sample (Ref 2) (Ref 1)"
    by (simp add: collection_handle_def is_ref_def sample_defs)
  have q: "param [Ref 3, Ref 4, Ref 0] (fixed_arg Delete) = Ref 3" "3 < fresh sample"
    by (simp_all add: param_def fixed_arg_def sample_def)
  have o: "options_usable sample Delete [Ref 3, Ref 4, Ref 0]"
    by (simp add: options_usable_def param_def is_ref_def allocated_def sample_def)
  have b: "props (cells sample 3) ''_id'' = Some (Str ''4f2a9C01bd33e7A5c0ffEE12'')"
    by (simp add: sample_defs)
  have hex: "is_24_hex_string ''4f2a9C01bd33e7A5c0ffEE12''"
    by (simp add: is_24_hex_string_def)
  show ?thesis
    using h q o b hex id_coerced_in_place [OF h q o b hex] by simp
qed

section \<open>Acknowledged writes\<close>

text \<open>
  Claim C5. For \<open>save\<close>, \<open>update\<close> and \<open>delete\<close>, whether the caller leaves the
  options out or passes an options object, and whatever that object holds: the call
  returns, it makes one request to the driver's collection, and in the store shown
  to the driver by that request the options object of the request has \<open>safe\<close> set
  to \<open>true\<close>, as it has when the call has returned. When the caller passed
  options, the object in the request is the caller's.
\<close>

theorem safe_forced:
  assumes "m = Save \<or> m = Update \<or> m = Delete"
    and "collection_handle s this coll"
    and "param args (fixed_arg m) = Ref a" and "a < fresh s"
    and "options_usable s m args"
  shows "\<exists>s' xs b. Collection_prototype m this args s = (Inr (), s') \<and>
           issued s s' = [Request coll (store_method m) xs] \<and>
           param xs (options_arg m) = Ref b \<and>
           sent_safe s s' b \<and>
           props (cells s' b) ''safe'' = Some (Bool True) \<and>
           (length args \<noteq> Suc (options_arg m) \<longrightarrow> param args (options_arg m) = Ref b)"
proof -
  consider (Save) "m = Save" | (Update) "m = Update" | (Delete) "m = Delete"
    using assms(1) by blast
  then show ?thesis
  proof cases
    case Save
    with assms(2-5) show ?thesis
      using save_effect [of s this coll args a]
      by (auto simp: post_iff Collection_prototype_def store_method_def fixed_arg_def
            options_arg_def param_simps dest!: wroteD)
  next
    case Update
    with assms(2-5) show ?thesis
      using update_effect [of s this coll args a]
      by (auto simp: post_iff Collection_prototype_def store_method_def fixed_arg_def
            options_arg_def param_simps dest!: wroteD)
  next
    case Delete
    with assms(2-5) show ?thesis
      using delete_effect [of s this coll args a]
      by (auto simp: post_iff Collection_prototype_def store_method_def fixed_arg_def
            options_arg_def param_simps dest!: wroteD)
  qed
qed

theorem safe_forced_witness:
  "(Update = Save \<or> Update = Update \<or> Update = Delete) \<and>
   collection_handle sample (Ref 2) (Ref 1) \<and>
   param [Ref 9, Ref 3, Ref 4, Ref 0] (fixed_arg Update) = Ref 3 \<and> 3 < fresh sample \<and>
   options_usable sample Update [Ref 9, Ref 3, Ref 4, Ref 0] \<and>
   props (cells sample 4) ''safe'' = Some (Bool False) \<and>
   (\<exists>s' xs. Collection_prototype Update (Ref 2) [Ref 9, Ref 3, Ref 4, Ref 0] sample = (Inr (), s') \<and>
          issued sample s' = [Request (Ref 1) ''update'' xs] \<and>
          param xs 2 = Ref 4 \<and>
          sent_safe sample s' 4 \<and>
          props (cells s' 4) ''safe'' = Some (Bool True))"
proof -
  have m: "Update = Save \<or> Update = Update \<or> Update = Delete"
    by simp
  have h: "collection_handle sample (Ref 2) (Ref 1)"
    by (simp add: collection_handle_def is_ref_def sample_defs)
  have q: "param [Ref 9, Ref 3, Ref 4, Ref 0] (fixed_arg Update) = Ref 3" "3 < fresh sample"
    by (simp_all add: param_def fixed_arg_def sample_def)
  have o: "options_usable sample Update [Ref 9, Ref 3, Ref 4, Ref 0]"
    by (simp add: options_usable_def param_def is_ref_def allocated_def sample_def)
  have b: "props (cells sample 4) ''safe'' = Some (Bool False)"
    by (simp add: sample_defs)
  show ?thesis
    using h q o b safe_forced [OF m h q o]
    by (auto simp: store_method_def options_arg_def param_simps)
qed

section \<open>The criteria of \<open>update\<close>\<close>




section \<open>Getting a collection\<close>





section \<open>Calls with the callback as only argument\<close>

text \<open>
  \<open>connect(callback)\<close> on the sample store, with the callback at address 0.
\<close>

lemma connect_sample:
  "connect [Ref 0] sample =
     (Inr (),
      \<lparr>cells = sample_cells
         (11 := \<lparr>kind = PlainObject,
                 props = [''strict'' \<mapsto> Bool False, ''safe'' \<mapsto> Bool True]\<rparr>,
          12 := \<lparr>kind = DriverObject ''Server'', props = Map.empty\<rparr>,
          13 := \<lparr>kind = DriverObject ''Db'', props = Map.empty\<rparr>,
          14 := \<lparr>kind = FunctionObject (ConnectOpened Undefined), props = Map.empty\<rparr>),
       fresh = 15,
       trace =
         [Construct ''Server'' [Str ''localhost'', Num 27017, Ref 11] (Ref 12),
          Construct ''Db'' [Undefined, Ref 12, Ref 11] (Ref 13),
          Request (Ref 13) ''open'' [Ref 14]],
       seen =
         [sample_cells
            (11 := \<lparr>kind = PlainObject,
                    props = [''strict'' \<mapsto> Bool False, ''safe'' \<mapsto> Bool True]\<rparr>,
             12 := \<lparr>kind = DriverObject ''Server'', props = Map.empty\<rparr>,
             13 := \<lparr>kind = DriverObject ''Db'', props = Map.empty\<rparr>,
             14 := \<lparr>kind = FunctionObject (ConnectOpened Undefined), props = Map.empty\<rparr>)]\<rparr>)"
  by (simp add: connect_def Let_def param_def or_else_def new_object_def construct_def
        new_closure_def js_bind_def js_return_def alloc_def getprop_def setprop_def emit_def
        request_def snapshot_def sample_def)

text \<open>
  Claim C2 says that \<open>connect\<close> with one argument takes it as the callback and
  calls it with \<open>null\<close> and a database handle. On the sample store the defaults
  \<open>localhost\<close> and 27017 are applied to a new options object and the driver is asked
  to open the connection, but the function passed to \<open>open\<close> holds \<open>undefined\<close>
  where the callback should be: when the driver answers with a connection, that
  function throws a TypeError and the callback is never invoked.
\<close>

theorem connect_single_argument_drops_callback:
  "is_function sample (Ref 0) \<and>
   fst (connect [Ref 0] sample) = Inr () \<and>
   trace (snd (connect [Ref 0] sample)) =
     [Construct ''Server'' [Str ''localhost'', Num 27017, Ref 11] (Ref 12),
      Construct ''Db'' [Undefined, Ref 12, Ref 11] (Ref 13),
      Request (Ref 13) ''open'' [Ref 14]] \<and>
   kind (cells (snd (connect [Ref 0] sample)) 14) = FunctionObject (ConnectOpened Undefined) \<and>
   fst (apply_closure (ConnectOpened Undefined) [Null, Ref 5] (snd (connect [Ref 0] sample)))
     = Inl TypeError \<and>
   trace (snd (apply_closure (ConnectOpened Undefined) [Null, Ref 5] (snd (connect [Ref 0] sample))))
     = trace (snd (connect [Ref 0] sample))"
proof -
  have f: "is_function sample (Ref 0)"
    by (simp add: is_function_def sample_defs)
  show ?thesis
    by (simp add: f connect_opened_without_callback connect_sample)
qed

text \<open>
  Claim C4 says that \<open>count\<close> with the callback as only argument passes a default
  query, the options and the callback on. On the sample store the request to the
  driver has the callback, the object at address 0, in the place of the query, and
  \<open>undefined\<close> in the place of the callback. (With two or three arguments,
  \<open>count_effect\<close> shows the query, the options with \<open>safe\<close> set and the callback
  passed on.)
\<close>

theorem count_single_argument_misplaces_callback:
  "is_function sample (Ref 0) \<and>
   fst (Collection_count (Ref 2) [Ref 0] sample) = Inr () \<and>
   trace (snd (Collection_count (Ref 2) [Ref 0] sample)) =
     [Request (Ref 1) ''count'' [Ref 0, Ref 11, Undefined]] \<and>
   props (cells (snd (Collection_count (Ref 2) [Ref 0] sample)) 11) ''safe'' = Some (Bool True)"
proof -
  have hex: "hex_of None = None"
    by (simp add: hex_of_def)
  have run: "Collection_count (Ref 2) [Ref 0] sample =
     (Inr (),
      \<lparr>cells = sample_cells(11 := \<lparr>kind = PlainObject, props = [''safe'' \<mapsto> Bool True]\<rparr>),
       fresh = 12,
       trace = [Request (Ref 1) ''count'' [Ref 0, Ref 11, Undefined]],
       seen = [sample_cells(11 := \<lparr>kind = PlainObject, props = [''safe'' \<mapsto> Bool True]\<rparr>)]\<rparr>)"
    by (simp add: Collection_count_def Let_def param_def new_object_def js_bind_def js_return_def
          alloc_def setprop_def fixID_Ref hex getprop_def request_def snapshot_def emit_def
          sample_defs)
  show ?thesis
    by (simp add: run) (simp add: is_function_def sample_defs)
qed

section \<open>Errors of the driver\<close>



section \<open>The round trip through the store\<close>

text \<open>
  Claim C8. For a record without \<open>_id\<close>, a successful \<open>save\<close> followed by a
  \<open>findOne\<close> whose query \<open>_id\<close> is the identifier that \<open>save\<close> handed back
  retrieves an equivalent record. Here the module's \<open>save\<close> and \<open>findOne\<close> run
  against the store modelled from the specification, and the save succeeds because
  the generated identifier \<open>g\<close> is not in use. The run returns; the first callback
  gets the saved record and the second gets a new object \<open>f\<close>. The fields of \<open>f\<close>
  are those of the record as the caller holds it after the save: every field other
  than \<open>_id\<close> as the caller had set it, and as \<open>_id\<close> the generated native
  identifier.
\<close>

theorem save_findOne_round_trip:
  assumes h: "collection_handle s this coll" and a: "a < fresh s"
    and n: "props (cells s a) ''_id'' = None"
    and g: "OidKey g \<notin> doc_key ` set docs"
    and cb: "is_function s cb" "allocated s cb" "is_function s cb'" "allocated s cb'"
  shows "\<exists>s' f b q b'.
           save_then_findOne g docs this (Ref a) cb cb' s = (Inr [Null, Ref f], s') \<and>
           issued s s' =
             [Request coll ''save'' [Ref a, Ref b, cb], Invoke cb [Null, Ref a],
              Request coll ''findOne'' [Ref q, Ref b', cb'], Invoke cb' [Null, Ref f]] \<and>
           props (cells s' f) = props (cells s' a) \<and>
           (\<forall>k. k \<noteq> ''_id'' \<longrightarrow> props (cells s' f) k = props (cells s a) k) \<and>
           (\<exists>i. props (cells s' f) ''_id'' = Some (Ref i) \<and>
                kind (cells s' i) = ObjectIDObject g)"
proof -
  from h obtain c d where hd: "this = Ref c" "c < fresh s"
      "props (cells s c) ''_coll'' = Some (Ref d)" "coll = Ref d"
    by (rule handleD)
  from cb obtain b b' where b: "cb = Ref b" "b < fresh s" "cb' = Ref b'" "b' < fresh s"
    by (auto simp: is_function_def allocated_def split: jsval.splits)
  define s1 where "s1 = s\<lparr>cells := (cells s)
                (fresh s := \<lparr>kind = PlainObject, props = [''safe'' \<mapsto> Bool True]\<rparr>),
             fresh := Suc (fresh s),
             seen := seen s @
               [(cells s)(fresh s := \<lparr>kind = PlainObject, props = [''safe'' \<mapsto> Bool True]\<rparr>)],
             trace := trace s @ [Request coll ''save'' [Ref a, Ref (fresh s), cb]]\<rparr>"
  have e1: "post (Collection_save this [Ref a, cb]) s Q = Q () s1" for Q
    unfolding s1_def by (rule save_plain [OF h a n])
  have f1: "a < fresh s1" "props (cells s1 a) ''_id'' = None"
    using a n by (simp_all add: s1_def)
  have t1: "trace s1 = trace s @ [Request coll ''save'' [Ref a, Ref (fresh s), cb]]"
    by (simp add: s1_def)
  have e1': "post (requested ''save'') s1 Q = Q [Ref a, Ref (fresh s), cb] s1" for Q
    by (rule post_requested [OF t1])
  define fields where "fields = (props (cells s1 a))(''_id'' \<mapsto> Ref (fresh s1))"
  define docs' where "docs' = docs @ [\<lparr>doc_key = OidKey g, doc_fields = fields\<rparr>]"
  define s2 where "s2 = s1\<lparr>fresh := Suc (fresh s1),
          cells := (cells s1)
             (fresh s1 := \<lparr>kind = ObjectIDObject g, props = Map.empty\<rparr>,
              a := (cells s1 a)\<lparr>props := fields\<rparr>)\<rparr>"
  have e2: "post (store_save g docs (Ref a)) s1 Q = Q ([Null, Ref a], docs') s2" for Q
    unfolding s2_def docs'_def fields_def by (rule post_store_save_new [OF f1 g])
  have f2: "is_function s2 cb" "props (cells s2 a) ''_id'' = Some (Ref (fresh s1))"
    using cb(1) b a by (auto simp: s2_def s1_def fields_def is_function_def)
  define s3 where "s3 = s2\<lparr>trace := trace s2 @ [Invoke cb [Null, Ref a]]\<rparr>"
  have e3: "post (invoke cb [Null, Ref a]) s2 Q = Q () s3" for Q
    using f2(1) by (simp add: s3_def)
  have f3: "props (cells s3 a) ''_id'' = Some (Ref (fresh s1))"
    using f2 by (simp add: s3_def)
  have e3': "post (getprop (Ref a) ''_id'') s3 Q = Q (Ref (fresh s1)) s3" for Q
    using f3 by simp
  define s4 where "s4 = s3\<lparr>cells := (cells s3)
                (fresh s3 := \<lparr>kind = PlainObject, props = [''_id'' \<mapsto> Ref (fresh s1)]\<rparr>),
              fresh := Suc (fresh s3)\<rparr>"
  have e4: "post (alloc \<lparr>kind = PlainObject, props = [''_id'' \<mapsto> Ref (fresh s1)]\<rparr>) s3 Q =
              Q (Ref (fresh s3)) s4" for Q
    by (simp add: s4_def)
  have f4: "collection_handle s4 this coll" "fresh s3 < fresh s4"
    "hex_of (props (cells s4 (fresh s3)) ''_id'') = None"
    using hd a by (auto simp: s4_def s3_def s2_def s1_def fields_def collection_handle_def
        is_ref_def hex_of_simps)
  define s5 where "s5 = s4\<lparr>cells := (cells s4)(fresh s4 := \<lparr>kind = PlainObject, props = Map.empty\<rparr>),
             fresh := Suc (fresh s4),
             seen := seen s4 @ [(cells s4)(fresh s4 := \<lparr>kind = PlainObject, props = Map.empty\<rparr>)],
             trace := trace s4 @ [Request coll ''findOne'' [Ref (fresh s3), Ref (fresh s4), cb']]\<rparr>"
  have e5: "post (Collection_findOne this [Ref (fresh s3), cb']) s4 Q = Q () s5" for Q
    unfolding s5_def by (rule findOne_by_id [OF f4])
  have t5: "trace s5 =
              trace s4 @ [Request coll ''findOne'' [Ref (fresh s3), Ref (fresh s4), cb']]"
    by (simp add: s5_def)
  have e5': "post (requested ''findOne'') s5 Q = Q [Ref (fresh s3), Ref (fresh s4), cb'] s5" for Q
    by (rule post_requested [OF t5])
  have f5: "props (cells s5 (fresh s3)) ''_id'' = Some (Ref (fresh s1))"
    "kind (cells s5 (fresh s1)) = ObjectIDObject g"
    using a by (auto simp: s5_def s4_def s3_def s2_def s1_def)
  define s6 where "s6 = s5\<lparr>cells := (cells s5)(fresh s5 := \<lparr>kind = PlainObject, props = fields\<rparr>),
          fresh := Suc (fresh s5)\<rparr>"
  have e6: "post (store_findOne docs' (Ref (fresh s3))) s5 Q = Q [Null, Ref (fresh s5)] s6" for Q
    unfolding s6_def docs'_def by (rule post_store_findOne_new [OF f5 g])
  have f6: "is_function s6 cb'"
    using cb(3) b a
    by (auto simp: s6_def s5_def s4_def s3_def s2_def s1_def is_function_def)
  define s7 where "s7 = s6\<lparr>trace := trace s6 @ [Invoke cb' [Null, Ref (fresh s5)]]\<rparr>"
  have e7: "post (invoke cb' [Null, Ref (fresh s5)]) s6 Q = Q () s7" for Q
    using f6 by (simp add: s7_def)
  have run: "post (save_then_findOne g docs this (Ref a) cb cb') s Q =
               Q [Null, Ref (fresh s5)] s7" for Q
    by (simp add: save_then_findOne_def e1 e1' e2 e3 e3' e4 e5 e5' e6 e7 param_simps
          del: post_alloc post_invoke post_getprop_Ref)
  have t2: "trace s2 = trace s1"
    by (simp add: s2_def)
  have t3: "trace s3 = trace s2 @ [Invoke cb [Null, Ref a]]"
    by (simp add: s3_def)
  have t4: "trace s4 = trace s3"
    by (simp add: s4_def)
  have t6: "trace s6 = trace s5"
    by (simp add: s6_def)
  have t7: "trace s7 = trace s6 @ [Invoke cb' [Null, Ref (fresh s5)]]"
    by (simp add: s7_def)
  have events: "issued s s7 =
      [Request coll ''save'' [Ref a, Ref (fresh s), cb], Invoke cb [Null, Ref a],
       Request coll ''findOne'' [Ref (fresh s3), Ref (fresh s4), cb'],
       Invoke cb' [Null, Ref (fresh s5)]]"
    by (simp add: issued_def t7 t6 t5 t4 t3 t2 t1)
  have fr: "fresh s2 = Suc (fresh s1)" "fresh s3 = fresh s2" "fresh s4 = Suc (fresh s3)"
      "fresh s5 = Suc (fresh s4)"
    by (simp_all add: s2_def s3_def s4_def s5_def)
  have k1: "cells s1 a = cells s a"
    using a by (simp add: s1_def)
  have k2: "cells s2 a = (cells s1 a)\<lparr>props := fields\<rparr>"
      "kind (cells s2 (fresh s1)) = ObjectIDObject g"
    using f1(1) by (simp_all add: s2_def)
  have k3: "cells s3 = cells s2"
    by (simp add: s3_def)
  have k4: "cells s4 a = cells s3 a" "cells s4 (fresh s1) = cells s3 (fresh s1)"
    using f1(1) by (simp_all add: s4_def fr)
  have k5: "cells s5 a = cells s4 a" "cells s5 (fresh s1) = cells s4 (fresh s1)"
    using f1(1) by (simp_all add: s5_def fr)
  have k6: "cells s6 (fresh s5) = \<lparr>kind = PlainObject, props = fields\<rparr>"
      "cells s6 a = cells s5 a" "cells s6 (fresh s1) = cells s5 (fresh s1)"
    using f1(1) by (simp_all add: s6_def fr)
  have k7: "cells s7 = cells s6"
    by (simp add: s7_def)
  have same: "props (cells s7 (fresh s5)) = props (cells s7 a)"
    by (simp add: k7 k6 k5 k4 k3 k2)
  have fields: "\<forall>k. k \<noteq> ''_id'' \<longrightarrow> props (cells s7 (fresh s5)) k = props (cells s a) k"
    by (simp add: k7 k6 fields_def k1)
  have id: "props (cells s7 (fresh s5)) ''_id'' = Some (Ref (fresh s1))"
    "kind (cells s7 (fresh s1)) = ObjectIDObject g"
    by (simp_all add: k7 k6 k5 k4 k3 k2 fields_def)
  have "post (save_then_findOne g docs this (Ref a) cb cb') s
          (\<lambda>x s'. x = [Null, Ref (fresh s5)] \<and> s' = s7)"
    by (simp add: run)
  then have "save_then_findOne g docs this (Ref a) cb cb' s = (Inr [Null, Ref (fresh s5)], s7)"
    by (auto simp: post_iff)
  with events same fields id show ?thesis
    by blast
qed

theorem save_findOne_round_trip_witness:
  "collection_handle author (Ref 2) (Ref 1) \<and> 11 < fresh author \<and>
   props (cells author 11) ''_id'' = None \<and>
   OidKey ''5099803df3f4948bd2f98391'' \<notin> doc_key ` set [] \<and>
   is_function author (Ref 0) \<and> allocated author (Ref 0) \<and>
   (\<exists>s' f. save_then_findOne ''5099803df3f4948bd2f98391'' [] (Ref 2) (Ref 11) (Ref 0) (Ref 0) author
             = (Inr [Null, Ref f], s') \<and>
           props (cells s' f) ''name'' = Some (Str ''pvorb'') \<and>
           props (cells s' f) ''_id'' = props (cells s' 11) ''_id'' \<and>
           (\<exists>i. props (cells s' f) ''_id'' = Some (Ref i) \<and>
                kind (cells s' i) = ObjectIDObject ''5099803df3f4948bd2f98391''))"
proof -
  have h: "collection_handle author (Ref 2) (Ref 1)"
    by (simp add: collection_handle_def is_ref_def author_def sample_cells_def)
  have a: "11 < fresh author"
    by (simp add: author_def)
  have n: "props (cells author 11) ''_id'' = None"
    by (simp add: author_def)
  have g: "OidKey ''5099803df3f4948bd2f98391'' \<notin> doc_key ` set []"
    by simp
  have f: "is_function author (Ref 0)" "allocated author (Ref 0)"
    by (simp_all add: is_function_def allocated_def author_def sample_cells_def)
  have v: "props (cells author 11) ''name'' = Some (Str ''pvorb'')"
    by (simp add: author_def)
  from save_findOne_round_trip [OF h a n g f f]
  obtain s' f' where r:
      "save_then_findOne ''5099803df3f4948bd2f98391'' [] (Ref 2) (Ref 11) (Ref 0) (Ref 0) author
         = (Inr [Null, Ref f'], s')"
      "props (cells s' f') = props (cells s' 11)"
      "\<forall>k. k \<noteq> ''_id'' \<longrightarrow> props (cells s' f') k = props (cells author 11) k"
      "\<exists>i. props (cells s' f') ''_id'' = Some (Ref i) \<and>
           kind (cells s' i) = ObjectIDObject ''5099803df3f4948bd2f98391''"
    by blast
  from r(3) v have "props (cells s' f') ''name'' = Some (Str ''pvorb'')"
    by simp
  with r(1,2,4) h a n g f show ?thesis
    by auto
qed

end
